theory Spec2Isabelle
  imports Main
begin

section \<open>Python values and exceptions\<close>

text \<open>
  The examples are Python. The values they build and take apart are JSON-like: strings,
  numbers, lists and dictionaries with string keys. A dictionary is an association list in
  insertion order; a lookup takes the first binding of the key. A float literal is kept as
  its source text, since no example computes with one.
\<close>

datatype pyval =
    PNone
  | PBool bool
  | PInt int
  | PFloat string
  | PStr string
  | PList "pyval list"
  | PDict "(string \<times> pyval) list"

datatype pyerror =
    KeyError string
  | IndexError
  | TypeError
  | AttributeError
  | ValueError

text \<open>\<^verbatim>\<open>v[k]\<close> for a string key \<^verbatim>\<open>k\<close>.\<close>

fun getitem_key :: "pyval \<Rightarrow> string \<Rightarrow> pyerror + pyval" where
  "getitem_key (PDict d) k = (case map_of d k of None \<Rightarrow> Inl (KeyError k) | Some v \<Rightarrow> Inr v)"
| "getitem_key _ k = Inl TypeError"

text \<open>
  \<^verbatim>\<open>v[0]\<close>. A list and a string are indexed by position (a string gives its first
  character as a string), a dictionary with string keys has no key \<^verbatim>\<open>0\<close>, and
  anything else is not subscriptable.
\<close>

fun getitem_0 :: "pyval \<Rightarrow> pyerror + pyval" where
  "getitem_0 (PList []) = Inl IndexError"
| "getitem_0 (PList (x # xs)) = Inr x"
| "getitem_0 (PStr []) = Inl IndexError"
| "getitem_0 (PStr (c # cs)) = Inr (PStr [c])"
| "getitem_0 (PDict d) = Inl (KeyError ''0'')"
| "getitem_0 _ = Inl TypeError"

text \<open>Sequencing of computations that may raise: the first exception wins.\<close>

definition bind_err :: "pyerror + 'a \<Rightarrow> ('a \<Rightarrow> pyerror + 'b) \<Rightarrow> pyerror + 'b" where
  "bind_err m f = (case m of Inl e \<Rightarrow> Inl e | Inr x \<Rightarrow> f x)"

text \<open>A list comprehension \<^verbatim>\<open>[f(x) for x in xs]\<close> whose body may raise.\<close>

fun comprehension :: "('a \<Rightarrow> pyerror + 'b) \<Rightarrow> 'a list \<Rightarrow> pyerror + 'b list" where
  "comprehension f [] = Inr []"
| "comprehension f (x # xs) =
     bind_err (f x) (\<lambda>y. bind_err (comprehension f xs) (\<lambda>ys. Inr (y # ys)))"


section \<open>The streaming example: \<open>EventHandler.on_tool_call_delta\<close>\<close>

text \<open>
  \<^verbatim>\<open>
  def on_tool_call_delta(self, delta, snapshot):
    if delta.type == 'code_interpreter':
      if delta.code_interpreter.input:
        print(delta.code_interpreter.input, end="", flush=True)
      if delta.code_interpreter.outputs:
        print(f"\n\noutput >", flush=True)
        for output in delta.code_interpreter.outputs:
          if output.type == "logs":
            print(f"\n{output.logs}", flush=True)
  \<close>
  The handler reads \<^verbatim>\<open>delta.type\<close>, \<^verbatim>\<open>delta.code_interpreter\<close> with its
  \<^verbatim>\<open>input\<close> and \<^verbatim>\<open>outputs\<close>, and of each output its \<^verbatim>\<open>type\<close> and
  \<^verbatim>\<open>logs\<close>. Each of \<^verbatim>\<open>code_interpreter\<close>, \<^verbatim>\<open>input\<close>, \<^verbatim>\<open>outputs\<close> and
  \<^verbatim>\<open>logs\<close> may be \<^verbatim>\<open>None\<close>. Standard output is the list of texts written, one
  per call of \<^verbatim>\<open>print\<close>.
\<close>

record ci_output =
  otype :: string
  logs :: "string option"

record code_interpreter_delta =
  input :: "string option"
  outputs :: "ci_output list option"

record tool_call_delta =
  dtype :: string
  code_interpreter :: "code_interpreter_delta option"

text \<open>Truth value of an optional string and of an optional list.\<close>

fun truthy :: "'a list option \<Rightarrow> bool" where
  "truthy None = False"
| "truthy (Some []) = False"
| "truthy (Some (x # xs)) = True"

text \<open>\<^verbatim>\<open>str(x)\<close> of an optional string, as \<^verbatim>\<open>print\<close> and an f-string format it.\<close>

fun str_opt :: "string option \<Rightarrow> string" where
  "str_opt None = ''None''"
| "str_opt (Some s) = s"

definition newline :: string where
  "newline = [CHR 0x0A]"

text \<open>\<^verbatim>\<open>print(x, end="")\<close> writes \<^verbatim>\<open>x\<close>; \<^verbatim>\<open>print(x)\<close> writes \<^verbatim>\<open>x\<close> and a newline.\<close>

definition print_end_empty :: "string \<Rightarrow> string list \<Rightarrow> string list" where
  "print_end_empty s out = out @ [s]"

definition print_line :: "string \<Rightarrow> string list \<Rightarrow> string list" where
  "print_line s out = out @ [s @ newline]"

text \<open>The \<^verbatim>\<open>for output in ...outputs\<close> loop.\<close>

fun print_outputs :: "ci_output list \<Rightarrow> string list \<Rightarrow> string list" where
  "print_outputs [] out = out"
| "print_outputs (output # rest) out =
     print_outputs rest
       (if otype output = ''logs'' then print_line (newline @ str_opt (logs output)) out
        else out)"

text \<open>
  The handler returns what it wrote and the exception it raised, if any: reading
  \<^verbatim>\<open>.input\<close> of \<^verbatim>\<open>None\<close> is an \<^verbatim>\<open>AttributeError\<close>.
\<close>

definition on_tool_call_delta :: "tool_call_delta \<Rightarrow> string list \<times> pyerror option" where
  "on_tool_call_delta delta =
     (if dtype delta = ''code_interpreter'' then
        (case code_interpreter delta of
           None \<Rightarrow> ([], Some AttributeError)
         | Some ci \<Rightarrow>
             (let out1 = (if truthy (input ci) then print_end_empty (str_opt (input ci)) [] else []);
                  out2 = (if truthy (outputs ci)
                          then print_outputs (the (outputs ci))
                                 (print_line (newline @ newline @ ''output >'') out1)
                          else out1)
              in (out2, None)))
      else ([], None))"

section \<open>The evaluation notebook: data source and configuration\<close>

text \<open>\<^verbatim>\<open>d[k]\<close> on a dictionary.\<close>

definition dict_getitem :: "(string \<times> 'v) list \<Rightarrow> string \<Rightarrow> pyerror + 'v" where
  "dict_getitem d k = (case map_of d k of None \<Rightarrow> Inl (KeyError k) | Some v \<Rightarrow> Inr v)"

text \<open>\<^verbatim>\<open>xs[0]\<close> on a list.\<close>

fun list_getitem_0 :: "'a list \<Rightarrow> pyerror + 'a" where
  "list_getitem_0 [] = Inl IndexError"
| "list_getitem_0 (x # xs) = Inr x"

text \<open>
  A loaded dataset maps a split name to its rows, and a row maps a column name to a value.
  \<^verbatim>\<open>split.select(range(n))\<close> returns an empty split as it is; of a split with rows it
  gives the first \<^verbatim>\<open>n\<close> in order, and raises \<^verbatim>\<open>IndexError\<close> when there are
  fewer than \<^verbatim>\<open>n\<close>.
\<close>

type_synonym example = "(string \<times> pyval) list"
type_synonym dataset = "(string \<times> example list) list"

definition select_range :: "nat \<Rightarrow> example list \<Rightarrow> pyerror + example list" where
  "select_range n rows =
     (if rows = [] then Inr []
      else if n \<le> length rows then Inr (take n rows)
      else Inl IndexError)"

text \<open>
  \<^verbatim>\<open>
  evals_data_source = []
  for example in dataset["test"].select(range(3)):
      evals_data_source.append({
          "item": {
              "media_url": example["media_url"],
              "reference": example["reference"],
              "prompt": example["prompt"]
          }
      })
  \<close>
\<close>

definition item_of_example :: "example \<Rightarrow> pyerror + pyval" where
  "item_of_example example =
     bind_err (dict_getitem example ''media_url'') (\<lambda>media_url.
     bind_err (dict_getitem example ''reference'') (\<lambda>reference.
     bind_err (dict_getitem example ''prompt'') (\<lambda>prompt.
       Inr (PDict [(''item'',
              PDict [(''media_url'', media_url), (''reference'', reference),
                     (''prompt'', prompt)])]))))"

fun append_items :: "example list \<Rightarrow> pyval list \<Rightarrow> pyerror + pyval list" where
  "append_items [] evals_data_source = Inr evals_data_source"
| "append_items (example # rest) evals_data_source =
     bind_err (item_of_example example) (\<lambda>item.
       append_items rest (evals_data_source @ [item]))"

definition build_evals_data_source :: "dataset \<Rightarrow> pyerror + pyval list" where
  "build_evals_data_source dataset =
     bind_err (dict_getitem dataset ''test'') (\<lambda>test.
     bind_err (select_range 3 test) (\<lambda>rows.
       append_items rows []))"

definition data_source_config :: pyval where
  "data_source_config =
     PDict [(''type'', PStr ''custom''),
            (''item_schema'',
               PDict [(''type'', PStr ''object''),
                      (''properties'',
                         PDict [(''media_url'', PDict [(''type'', PStr ''string'')]),
                                (''reference'', PDict [(''type'', PStr ''string'')]),
                                (''prompt'', PDict [(''type'', PStr ''string'')])]),
                      (''required'',
                         PList [PStr ''media_url'', PStr ''reference'', PStr ''prompt''])]),
            (''include_sample_schema'', PBool True)]"

definition grader_config :: pyval where
  "grader_config =
     PDict [(''type'', PStr ''score_model''),
            (''name'', PStr ''Score Model Grader''),
            (''input'',
               PList [PDict [(''role'', PStr ''system''),
                             (''content'', PStr (''You are an expert grader. Judge how well the model response suits the image and prompt as well as matches the meaniing of the reference answer. Output a score of 1 if great. If it'' @ [CHR 0x27] @ ''s somewhat compatible, output a score around 0.5. Otherwise, give a score of 0.''))],
                      PDict [(''role'', PStr ''user''),
                             (''content'',
                                PList [PDict [(''type'', PStr ''input_text''),
                                              (''text'', PStr ''Prompt: {{ item.prompt }}.'')],
                                       PDict [(''type'', PStr ''input_image''),
                                              (''image_url'', PStr ''{{ item.media_url }}''),
                                              (''detail'', PStr ''auto'')],
                                       PDict [(''type'', PStr ''input_text''),
                                              (''text'', PStr ''Reference answer: {{ item.reference }}. Model response: {{ sample.output_text }}.'')]])]]),
            (''pass_threshold'', PFloat ''0.9''),
            (''range'', PList [PInt 0, PInt 1]),
            (''model'', PStr ''o4-mini'')]"

definition sampling_messages :: pyval where
  "sampling_messages =
     PList [PDict [(''role'', PStr ''user''),
                   (''type'', PStr ''message''),
                   (''content'', PDict [(''type'', PStr ''input_text''),
                                        (''text'', PStr ''{{ item.prompt }}'')])],
            PDict [(''role'', PStr ''user''),
                   (''type'', PStr ''message''),
                   (''content'', PDict [(''type'', PStr ''input_image''),
                                        (''image_url'', PStr ''{{ item.media_url }}''),
                                        (''detail'', PStr ''auto'')])]]"

text \<open>The \<^verbatim>\<open>data_source\<close> argument of \<^verbatim>\<open>client.evals.runs.create\<close>.\<close>

definition run_data_source :: "pyval list \<Rightarrow> pyval" where
  "run_data_source evals_data_source =
     PDict [(''type'', PStr ''responses''),
            (''source'', PDict [(''type'', PStr ''file_content''),
                                (''content'', PList evals_data_source)]),
            (''model'', PStr ''gpt-4o-mini''),
            (''input_messages'', PDict [(''type'', PStr ''template''),
                                        (''template'', sampling_messages)])]"

text \<open>
  What it means for a value to satisfy an \<^verbatim>\<open>item_schema\<close> like the one above, by the
  JSON Schema reading of its three keywords: the value has the schema's \<^verbatim>\<open>type\<close>, it
  has every key listed under \<^verbatim>\<open>required\<close>, and each key it has that is listed under
  \<^verbatim>\<open>properties\<close> holds a value of that property's \<^verbatim>\<open>type\<close>.
\<close>

fun has_json_type :: "pyval \<Rightarrow> pyval \<Rightarrow> bool" where
  "has_json_type (PStr t) (PStr s) = (t = ''string'')"
| "has_json_type (PStr t) (PDict d) = (t = ''object'')"
| "has_json_type (PStr t) (PList xs) = (t = ''array'')"
| "has_json_type (PStr t) (PBool b) = (t = ''boolean'')"
| "has_json_type (PStr t) (PInt i) = (t = ''integer'' \<or> t = ''number'')"
| "has_json_type (PStr t) (PFloat f) = (t = ''number'')"
| "has_json_type (PStr t) PNone = (t = ''null'')"
| "has_json_type _ _ = False"

definition has_required :: "pyval \<Rightarrow> pyval \<Rightarrow> bool" where
  "has_required v k = (case k of PStr key \<Rightarrow> \<not> isl (getitem_key v key) | _ \<Rightarrow> False)"

definition property_ok :: "pyval \<Rightarrow> string \<times> pyval \<Rightarrow> bool" where
  "property_ok v p =
     (case getitem_key v (fst p) of
        Inl e \<Rightarrow> True
      | Inr x \<Rightarrow> (case getitem_key (snd p) ''type'' of Inl e \<Rightarrow> True | Inr t \<Rightarrow> has_json_type t x))"

definition satisfies_schema :: "pyval \<Rightarrow> pyval \<Rightarrow> bool" where
  "satisfies_schema schema v =
     (case (getitem_key schema ''type'', getitem_key schema ''properties'',
            getitem_key schema ''required'') of
        (Inr t, Inr (PDict props), Inr (PList req)) \<Rightarrow>
           has_json_type t v \<and> list_all (has_required v) req \<and> list_all (property_ok v) props
      | _ \<Rightarrow> False)"


section \<open>The evaluation notebook: calls to the service, polling and display\<close>

text \<open>
  The objects the service returns, with the fields the notebook reads: \<^verbatim>\<open>eval_object.id\<close>;
  \<^verbatim>\<open>run.id\<close> and \<^verbatim>\<open>run.status\<close>; of an output item \<^verbatim>\<open>datasource_item\<close> (a
  dictionary), \<^verbatim>\<open>sample.output\<close> (a list of objects with a \<^verbatim>\<open>content\<close>) and
  \<^verbatim>\<open>results\<close> (a list of dictionaries). The field \<open>sample_output\<close> is the
  source's \<^verbatim>\<open>sample.output\<close>.
\<close>

record eval_object =
  eval_object_id :: string

record run =
  run_id :: string
  status :: string

record sample_output =
  content :: pyval

record sample_obj =
  sample_output :: "sample_output list"

record output_item =
  datasource_item :: "(string \<times> pyval) list"
  sample :: sample_obj
  results :: "pyval list"

text \<open>
  The service as the notebook sees it: what \<^verbatim>\<open>evals.create\<close> and
  \<^verbatim>\<open>evals.runs.create\<close> return, what the k-th call of \<^verbatim>\<open>evals.runs.retrieve\<close>
  returns (counting from 0), and what \<^verbatim>\<open>evals.runs.output_items.list\<close> returns,
  all its pages taken together as \<^verbatim>\<open>list(...)\<close> collects them. The notebook's
  requests are fixed by the dataset, so what comes back is given per call. Every call
  returns: a call that raises is outside this model.
\<close>

record service =
  evals_create :: eval_object
  runs_create :: run
  runs_retrieve :: "nat \<Rightarrow> run"
  output_items_list :: "output_item list"

text \<open>
  \<^verbatim>\<open>pd.DataFrame(dict_of_columns)\<close>: the columns in the dictionary's order, one row per
  position; columns of different lengths are a \<^verbatim>\<open>ValueError\<close>. The constructor infers
  a type for each column from all of its values and stores the values in that type. A
  column whose values are all strings holds those strings. What any other column holds
  (numbers widened, \<^verbatim>\<open>None\<close> turned into a missing value, and so on) is not modelled:
  its cell is recorded as the cell inferred from that column at that position.
\<close>

datatype cell =
    Str_Cell string
  | Inferred_Cell "pyval list" nat

fun strings_of :: "pyval list \<Rightarrow> string list option" where
  "strings_of [] = Some []"
| "strings_of (PStr s # vs) = map_option (\<lambda>ss. s # ss) (strings_of vs)"
| "strings_of (v # vs) = None"

definition store_column :: "pyval list \<Rightarrow> cell list" where
  "store_column col =
     (case strings_of col of
        Some ss \<Rightarrow> map Str_Cell ss
      | None \<Rightarrow> map (Inferred_Cell col) [0..<length col])"

record dataframe =
  columns :: "string list"
  rows :: "cell list list"

definition pd_DataFrame :: "(string \<times> pyval list) list \<Rightarrow> pyerror + dataframe" where
  "pd_DataFrame cols =
     (case cols of
        [] \<Rightarrow> Inr \<lparr>columns = [], rows = []\<rparr>
      | c # cs \<Rightarrow>
          if list_all (\<lambda>c'. length (snd c') = length (snd c)) cs
          then Inr \<lparr>columns = map fst cols,
                    rows = map (\<lambda>i. map (\<lambda>c'. store_column (snd c') ! i) cols)
                             [0..<length (snd c)]\<rparr>
          else Inl ValueError)"

text \<open>What the notebook does that can be observed, in order.\<close>

datatype event =
    Evals_Create string pyval "pyval list"
  | Runs_Create string string pyval
  | Runs_Retrieve string string
  | Output_Items_List string string
  | Display dataframe
  | Sleep nat

text \<open>
  The four columns of the displayed table, each the body of one list comprehension:
  \<^verbatim>\<open>
  item.datasource_item["prompt"]
  item.datasource_item["reference"]
  item.sample.output[0].content
  item.results[0]["sample"]["output"][0]["content"]
  \<close>
\<close>

definition prompt_of :: "output_item \<Rightarrow> pyerror + pyval" where
  "prompt_of item = dict_getitem (datasource_item item) ''prompt''"

definition reference_of :: "output_item \<Rightarrow> pyerror + pyval" where
  "reference_of item = dict_getitem (datasource_item item) ''reference''"

definition model_response_of :: "output_item \<Rightarrow> pyerror + pyval" where
  "model_response_of item =
     bind_err (list_getitem_0 (sample_output (sample item))) (\<lambda>out0. Inr (content out0))"

definition grading_results_of :: "output_item \<Rightarrow> pyerror + pyval" where
  "grading_results_of item =
     bind_err (list_getitem_0 (results item)) (\<lambda>result0.
     bind_err (getitem_key result0 ''sample'') (\<lambda>smp.
     bind_err (getitem_key smp ''output'') (\<lambda>outs.
     bind_err (getitem_0 outs) (\<lambda>out0.
       getitem_key out0 ''content''))))"

definition build_df :: "output_item list \<Rightarrow> pyerror + dataframe" where
  "build_df output_items =
     bind_err (comprehension prompt_of output_items) (\<lambda>prompts.
     bind_err (comprehension reference_of output_items) (\<lambda>references.
     bind_err (comprehension model_response_of output_items) (\<lambda>model_responses.
     bind_err (comprehension grading_results_of output_items) (\<lambda>grading_results.
       pd_DataFrame [(''prompt'', prompts), (''reference'', references),
                     (''model_response'', model_responses),
                     (''grading_results'', grading_results)]))))"

text \<open>
  \<^verbatim>\<open>
  while True:
      run = client.evals.runs.retrieve(run_id=eval_run.id, eval_id=eval_object.id)
      if run.status == "completed" or run.status == "failed":
          output_items = list(client.evals.runs.output_items.list(
              run_id=run.id, eval_id=eval_object.id))
          df = pd.DataFrame({...})
          display(df)
          break
      time.sleep(5)
  \<close>
  One pass through the body gives the events of that pass and how the pass ends: the loop
  goes round again, it is left by \<^verbatim>\<open>break\<close>, or an exception leaves it.
\<close>

datatype control = Continue | Break | Raise pyerror

text \<open>The loop's test on the retrieved run.\<close>

abbreviation finished :: "run \<Rightarrow> bool" where
  "finished r \<equiv> status r = ''completed'' \<or> status r = ''failed''"

definition loop_body ::
  "service \<Rightarrow> run \<Rightarrow> eval_object \<Rightarrow> nat \<Rightarrow> event list \<times> control" where
  "loop_body client eval_run eval_obj k =
     (let run = runs_retrieve client k;
          retrieved = [Runs_Retrieve (run_id eval_run) (eval_object_id eval_obj)]
      in if finished run then
           (let output_items = output_items_list client;
                listed = retrieved @ [Output_Items_List (run_id run) (eval_object_id eval_obj)]
            in case build_df output_items of
                 Inl e \<Rightarrow> (listed, Raise e)
               | Inr df \<Rightarrow> (listed @ [Display df], Break))
         else (retrieved @ [Sleep 5], Continue))"

text \<open>
  The loop, having made \<open>k\<close> retrieve calls and produced the events \<open>tr\<close> so far. It
  returns the events of the whole run and the exception that ended it, if one did; a loop
  that runs for ever has no result.
\<close>

partial_function (option) poll_loop ::
  "service \<Rightarrow> run \<Rightarrow> eval_object \<Rightarrow> nat \<Rightarrow> event list \<Rightarrow> (event list \<times> pyerror option) option"
where
  "poll_loop client eval_run eval_obj k tr =
     (case loop_body client eval_run eval_obj k of
        (evs, Continue) \<Rightarrow> poll_loop client eval_run eval_obj (Suc k) (tr @ evs)
      | (evs, Break) \<Rightarrow> Some (tr @ evs, None)
      | (evs, Raise e) \<Rightarrow> Some (tr @ evs, Some e))"

text \<open>
  The first \<open>n\<close> passes of the same loop: the events so far, and whether the loop is still
  running (\<open>Continue\<close>) or how it was left.
\<close>

fun poll_passes ::
  "nat \<Rightarrow> service \<Rightarrow> run \<Rightarrow> eval_object \<Rightarrow> nat \<Rightarrow> event list \<Rightarrow> event list \<times> control" where
  "poll_passes 0 client eval_run eval_obj k tr = (tr, Continue)"
| "poll_passes (Suc n) client eval_run eval_obj k tr =
     (case loop_body client eval_run eval_obj k of
        (evs, Continue) \<Rightarrow> poll_passes n client eval_run eval_obj (Suc k) (tr @ evs)
      | (evs, c) \<Rightarrow> (tr @ evs, c))"

text \<open>
  The notebook from the data source to the display, in cell order: the data source is
  built, the eval is created, the run is created, and the loop polls. An exception ends
  the notebook where it is raised.
  \<^verbatim>\<open>
  eval_object = client.evals.create(name="Image Grading",
      data_source_config=data_source_config, testing_criteria=[grader_config])
  eval_run = client.evals.runs.create(name="Image Input Eval Run",
      eval_id=eval_object.id, data_source={...})
  \<close>
\<close>

definition notebook_setup ::
  "service \<Rightarrow> dataset \<Rightarrow> pyerror + (eval_object \<times> run \<times> event list)" where
  "notebook_setup client dataset =
     bind_err (build_evals_data_source dataset) (\<lambda>evals_data_source.
       (let eval_obj = evals_create client;
            tr1 = [Evals_Create ''Image Grading'' data_source_config [grader_config]];
            eval_run = runs_create client;
            tr2 = tr1 @ [Runs_Create ''Image Input Eval Run'' (eval_object_id eval_obj)
                           (run_data_source evals_data_source)]
        in Inr (eval_obj, eval_run, tr2)))"

definition notebook :: "service \<Rightarrow> dataset \<Rightarrow> (event list \<times> pyerror option) option" where
  "notebook client dataset =
     (case notebook_setup client dataset of
        Inl e \<Rightarrow> Some ([], Some e)
      | Inr (eval_obj, eval_run, tr) \<Rightarrow> poll_loop client eval_run eval_obj 0 tr)"

text \<open>The notebook cut off after \<open>n\<close> passes of its loop.\<close>

definition notebook_passes :: "nat \<Rightarrow> service \<Rightarrow> dataset \<Rightarrow> event list \<times> control" where
  "notebook_passes n client dataset =
     (case notebook_setup client dataset of
        Inl e \<Rightarrow> ([], Raise e)
      | Inr (eval_obj, eval_run, tr) \<Rightarrow> poll_passes n client eval_run eval_obj 0 tr)"

text \<open>\<^verbatim>\<open>data_source_config["item_schema"]\<close>.\<close>

definition item_schema :: pyval where
  "item_schema = projr (getitem_key data_source_config ''item_schema'')"


section \<open>Shorthand for the statements\<close>

text \<open>
  A row has the three columns the data source is built from; the dictionary and the list
  element built from such a row; an output item from which all four table cells can be read.
\<close>

abbreviation has_columns :: "example \<Rightarrow> bool" where
  "has_columns ex \<equiv> map_of ex ''media_url'' \<noteq> None \<and> map_of ex ''reference'' \<noteq> None \<and>
     map_of ex ''prompt'' \<noteq> None"

abbreviation fields_from :: "example \<Rightarrow> pyval" where
  "fields_from ex \<equiv>
     PDict [(''media_url'', the (map_of ex ''media_url'')),
            (''reference'', the (map_of ex ''reference'')),
            (''prompt'', the (map_of ex ''prompt''))]"

abbreviation item_from :: "example \<Rightarrow> pyval" where
  "item_from ex \<equiv> PDict [(''item'', fields_from ex)]"

abbreviation readable :: "output_item \<Rightarrow> bool" where
  "readable item \<equiv> \<not> isl (prompt_of item) \<and> \<not> isl (reference_of item) \<and>
     \<not> isl (model_response_of item) \<and> \<not> isl (grading_results_of item)"


section \<open>Sample inputs\<close>

text \<open>
  A dataset with four test rows; an output item of the shape the service documents; a
  service whose run is in progress for two polls and then has the given status; and a
  service whose run never leaves \<^verbatim>\<open>in_progress\<close>.
\<close>

definition sample_row :: "string \<Rightarrow> example" where
  "sample_row n =
     [(''example_id'', PStr n),
      (''prompt'', PStr (''prompt '' @ n)),
      (''reference'', PStr (''reference '' @ n)),
      (''media_url'', PStr (''https://example.org/'' @ n @ ''.jpg''))]"

definition sample_dataset :: dataset where
  "sample_dataset =
     [(''test'', [sample_row ''a'', sample_row ''b'', sample_row ''c'', sample_row ''d''])]"

definition sample_item :: "string \<Rightarrow> output_item" where
  "sample_item n =
     \<lparr>datasource_item = [(''prompt'', PStr (''prompt '' @ n)),
                         (''media_url'', PStr (''https://example.org/'' @ n @ ''.jpg'')),
                         (''reference'', PStr (''reference '' @ n))],
      sample = \<lparr>sample_output = [\<lparr>content = PStr (''response '' @ n)\<rparr>]\<rparr>,
      results = [PDict [(''name'', PStr ''Score Model Grader''),
                        (''sample'',
                           PDict [(''input'', PList []),
                                  (''output'',
                                     PList [PDict [(''role'', PStr ''assistant''),
                                                   (''content'', PStr (''grading '' @ n))]])]),
                        (''passed'', PBool False)]]\<rparr>"

definition sample_service :: "string \<Rightarrow> service" where
  "sample_service st =
     \<lparr>evals_create = \<lparr>eval_object_id = ''eval_1''\<rparr>,
      runs_create = \<lparr>run_id = ''evalrun_1'', status = ''queued''\<rparr>,
      runs_retrieve =
        (\<lambda>k. \<lparr>run_id = ''evalrun_1'', status = (if k < 2 then ''in_progress'' else st)\<rparr>),
      output_items_list = [sample_item ''a'', sample_item ''b'']\<rparr>"

definition stuck_service :: service where
  "stuck_service =
     \<lparr>evals_create = \<lparr>eval_object_id = ''eval_1''\<rparr>,
      runs_create = \<lparr>run_id = ''evalrun_1'', status = ''queued''\<rparr>,
      runs_retrieve = (\<lambda>k. \<lparr>run_id = ''evalrun_1'', status = ''in_progress''\<rparr>),
      output_items_list = []\<rparr>"


section \<open>What the handler writes\<close>

lemma print_outputs_closed:
  "print_outputs os out =
     out @ map (\<lambda>x. newline @ str_opt (logs x) @ newline) (filter (\<lambda>x. otype x = ''logs'') os)"
  by (induction os arbitrary: out) (simp_all add: print_line_def)

text \<open>
  Claim C9. \<open>on_tool_call_delta\<close> writes nothing for a delta whose type is not
  \<^verbatim>\<open>'code_interpreter'\<close>. For a \<^verbatim>\<open>'code_interpreter'\<close> delta it writes the input
  exactly when the input is truthy (neither \<^verbatim>\<open>None\<close> nor empty); when the outputs are
  truthy it writes the \<^verbatim>\<open>output >\<close> line and then one text per output of type
  \<^verbatim>\<open>"logs"\<close>, in order, holding that output's logs; outputs of any other type are
  skipped. (A \<^verbatim>\<open>'code_interpreter'\<close> delta whose \<^verbatim>\<open>code_interpreter\<close> is
  \<^verbatim>\<open>None\<close> writes nothing and raises.)
\<close>

theorem on_tool_call_delta_prints:
  "(dtype delta \<noteq> ''code_interpreter'' \<longrightarrow> on_tool_call_delta delta = ([], None)) \<and>
   (dtype delta = ''code_interpreter'' \<and> code_interpreter delta = None \<longrightarrow>
      on_tool_call_delta delta = ([], Some AttributeError)) \<and>
   (dtype delta = ''code_interpreter'' \<and> code_interpreter delta = Some ci \<longrightarrow>
      on_tool_call_delta delta =
        ((if truthy (input ci) then [the (input ci)] else []) @
         (if truthy (outputs ci)
          then (newline @ newline @ ''output >'' @ newline) #
               map (\<lambda>x. newline @ str_opt (logs x) @ newline)
                 (filter (\<lambda>x. otype x = ''logs'') (the (outputs ci)))
          else []),
         None))"
  by (cases "input ci")
     (simp_all add: on_tool_call_delta_def print_outputs_closed print_line_def
       print_end_empty_def Let_def)

theorem on_tool_call_delta_prints_witness:
  "on_tool_call_delta \<lparr>dtype = ''file_search'', code_interpreter = None\<rparr> = ([], None) \<and>
   on_tool_call_delta
     \<lparr>dtype = ''code_interpreter'',
      code_interpreter = Some \<lparr>input = Some ''x=1'',
        outputs = Some [\<lparr>otype = ''image'', logs = None\<rparr>,
                        \<lparr>otype = ''logs'', logs = Some ''ok''\<rparr>]\<rparr>\<rparr>
     = ([''x=1'', newline @ newline @ ''output >'' @ newline, newline @ ''ok'' @ newline], None)"
  using on_tool_call_delta_prints [of "\<lparr>dtype = ''file_search'', code_interpreter = None\<rparr>"]
    on_tool_call_delta_prints [of "\<lparr>dtype = ''code_interpreter'',
      code_interpreter = Some \<lparr>input = Some ''x=1'',
        outputs = Some [\<lparr>otype = ''image'', logs = None\<rparr>,
                        \<lparr>otype = ''logs'', logs = Some ''ok''\<rparr>]\<rparr>\<rparr>"
      "\<lparr>input = Some ''x=1'',
        outputs = Some [\<lparr>otype = ''image'', logs = None\<rparr>,
                        \<lparr>otype = ''logs'', logs = Some ''ok''\<rparr>]\<rparr>"]
  by simp

section \<open>One pass of the polling loop, and the loop\<close>



lemma loop_body_waiting:
  "\<not> finished (runs_retrieve client k) \<Longrightarrow>
   loop_body client eval_run eval_obj k =
     ([Runs_Retrieve (run_id eval_run) (eval_object_id eval_obj), Sleep 5], Continue)"
  by (simp add: loop_body_def Let_def)

lemma loop_body_finished:
  "finished (runs_retrieve client k) \<Longrightarrow>
   loop_body client eval_run eval_obj k =
     (case build_df (output_items_list client) of
        Inl e \<Rightarrow> ([Runs_Retrieve (run_id eval_run) (eval_object_id eval_obj),
                   Output_Items_List (run_id (runs_retrieve client k)) (eval_object_id eval_obj)],
                  Raise e)
      | Inr df \<Rightarrow> ([Runs_Retrieve (run_id eval_run) (eval_object_id eval_obj),
                    Output_Items_List (run_id (runs_retrieve client k)) (eval_object_id eval_obj),
                    Display df], Break))"
  by (auto simp add: loop_body_def Let_def split: sum.splits)

lemma loop_body_Continue_iff:
  "snd (loop_body client eval_run eval_obj k) = Continue \<longleftrightarrow> \<not> finished (runs_retrieve client k)"
  by (auto simp add: loop_body_def Let_def split: sum.splits)

lemma poll_loop_waiting:
  "\<not> finished (runs_retrieve client k) \<Longrightarrow>
   poll_loop client eval_run eval_obj k tr =
     poll_loop client eval_run eval_obj (Suc k)
       (tr @ [Runs_Retrieve (run_id eval_run) (eval_object_id eval_obj), Sleep 5])"
  by (subst poll_loop.simps) (simp add: loop_body_waiting)

lemma poll_loop_finished:
  "finished (runs_retrieve client k) \<Longrightarrow>
   poll_loop client eval_run eval_obj k tr =
     Some (tr @ fst (loop_body client eval_run eval_obj k),
           case snd (loop_body client eval_run eval_obj k) of Raise e \<Rightarrow> Some e | _ \<Rightarrow> None)"
  by (subst poll_loop.simps) (auto simp add: loop_body_finished split: sum.splits)

lemma poll_loop_first_finished:
  "\<forall>j<n. \<not> finished (runs_retrieve client (k + j)) \<Longrightarrow>
   finished (runs_retrieve client (k + n)) \<Longrightarrow>
   poll_loop client eval_run eval_obj k tr =
     Some (tr @ concat (replicate n [Runs_Retrieve (run_id eval_run) (eval_object_id eval_obj), Sleep 5])
              @ fst (loop_body client eval_run eval_obj (k + n)),
           case snd (loop_body client eval_run eval_obj (k + n)) of Raise e \<Rightarrow> Some e | _ \<Rightarrow> None)"
proof (induction n arbitrary: k tr)
  case 0
  then show ?case by (simp add: poll_loop_finished)
next
  case (Suc n)
  from Suc.prems(1) have w: "\<not> finished (runs_retrieve client k)" by force
  from Suc.prems(1) have "\<forall>j<n. \<not> finished (runs_retrieve client (Suc k + j))"
    by (metis Suc_less_eq add_Suc_right add_Suc)
  moreover from Suc.prems(2) have "finished (runs_retrieve client (Suc k + n))" by simp
  ultimately show ?case
    using Suc.IH [of "Suc k"] w by (simp add: poll_loop_waiting)
qed

lemma poll_loop_Some_finished:
  assumes "poll_loop client eval_run eval_obj k tr = Some res"
  shows "\<exists>n. finished (runs_retrieve client (k + n))"
proof (rule poll_loop.raw_induct
    [where P = "\<lambda>c er eo k tr res. \<exists>n. finished (runs_retrieve c (k + n))", OF _ assms])
  fix f :: "service \<Rightarrow> run \<Rightarrow> eval_object \<Rightarrow> nat \<Rightarrow> event list \<Rightarrow> (event list \<times> pyerror option) option"
  fix c er eo k tr res
  assume IH: "\<And>c er eo k tr res. f c er eo k tr = Some res \<Longrightarrow>
                \<exists>n. finished (runs_retrieve c (k + n))"
  assume body: "(case loop_body c er eo k of
        (evs, Continue) \<Rightarrow> f c er eo (Suc k) (tr @ evs)
      | (evs, Break) \<Rightarrow> Some (tr @ evs, None)
      | (evs, Raise e) \<Rightarrow> Some (tr @ evs, Some e)) = Some res"
  show "\<exists>n. finished (runs_retrieve c (k + n))"
  proof (cases "finished (runs_retrieve c k)")
    case True
    then have "finished (runs_retrieve c (k + 0))" by simp
    then show ?thesis by blast
  next
    case False
    with body
    have "f c er eo (Suc k) (tr @ [Runs_Retrieve (run_id er) (eval_object_id eo), Sleep 5]) = Some res"
      by (simp add: loop_body_waiting)
    from IH [OF this] obtain n where "finished (runs_retrieve c (Suc k + n))" by blast
    then have "finished (runs_retrieve c (k + Suc n))" by simp
    then show ?thesis by blast
  qed
qed

lemma poll_loop_never:
  "\<forall>j. \<not> finished (runs_retrieve client (k + j)) \<Longrightarrow> poll_loop client eval_run eval_obj k tr = None"
  using poll_loop_Some_finished by (cases "poll_loop client eval_run eval_obj k tr") blast+


lemma poll_passes_waiting:
  "\<forall>j<n. \<not> finished (runs_retrieve client (k + j)) \<Longrightarrow>
   poll_passes n client eval_run eval_obj k tr =
     (tr @ concat (replicate n
        [Runs_Retrieve (run_id eval_run) (eval_object_id eval_obj), Sleep 5]), Continue)"
proof (induction n arbitrary: k tr)
  case 0
  show ?case by simp
next
  case (Suc n)
  from Suc.prems have w: "\<not> finished (runs_retrieve client k)" by force
  from Suc.prems have "\<forall>j<n. \<not> finished (runs_retrieve client (Suc k + j))"
    by (metis Suc_less_eq add_Suc_right add_Suc)
  from Suc.IH [OF this] w show ?case by (simp add: loop_body_waiting)
qed

lemma poll_passes_sleeps:
  "poll_passes n client eval_run eval_obj k tr = (t, ctl) \<Longrightarrow>
   Sleep d \<in> set t \<Longrightarrow> Sleep d \<in> set tr \<or> d = 5"
proof (induction n arbitrary: k tr)
  case 0
  then show ?case by simp
next
  case (Suc n)
  show ?case
  proof (cases "finished (runs_retrieve client k)")
    case True
    with Suc.prems show ?thesis
      by (auto simp add: loop_body_finished split: sum.splits)
  next
    case False
    with Suc.prems(1)
    have "poll_passes n client eval_run eval_obj (Suc k)
            (tr @ [Runs_Retrieve (run_id eval_run) (eval_object_id eval_obj), Sleep 5]) = (t, ctl)"
      by (simp add: loop_body_waiting)
    from Suc.IH [OF this Suc.prems(2)] show ?thesis by auto
  qed
qed

lemma poll_passes_agree:
  "poll_passes n client eval_run eval_obj k tr = (t, ctl) \<Longrightarrow> ctl \<noteq> Continue \<Longrightarrow>
   poll_loop client eval_run eval_obj k tr =
     Some (t, case ctl of Raise e \<Rightarrow> Some e | _ \<Rightarrow> None)"
proof (induction n arbitrary: k tr)
  case 0
  then show ?case by simp
next
  case (Suc n)
  show ?case
  proof (cases "finished (runs_retrieve client k)")
    case True
    with Suc.prems show ?thesis
      by (subst poll_loop.simps) (auto simp add: loop_body_finished split: sum.splits)
  next
    case False
    with Suc.prems(1)
    have "poll_passes n client eval_run eval_obj (Suc k)
            (tr @ [Runs_Retrieve (run_id eval_run) (eval_object_id eval_obj), Sleep 5]) = (t, ctl)"
      by (simp add: loop_body_waiting)
    from Suc.IH [OF this Suc.prems(2)] False show ?thesis
      by (simp add: poll_loop_waiting)
  qed
qed

lemma first_finished_exists:
  assumes "finished (runs_retrieve client (k + m))"
  shows "\<exists>n. (\<forall>j<n. \<not> finished (runs_retrieve client (k + j))) \<and>
              finished (runs_retrieve client (k + n))"
proof -
  define n where "n = (LEAST i. finished (runs_retrieve client (k + i)))"
  have "finished (runs_retrieve client (k + n))"
    unfolding n_def using assms by (rule LeastI)
  moreover have "\<forall>j<n. \<not> finished (runs_retrieve client (k + j))"
    unfolding n_def using not_less_Least by blast
  ultimately show ?thesis by blast
qed

text \<open>The loop cut off after enough passes is the loop: the two definitions agree.\<close>

lemma poll_passes_first_finished:
  "\<forall>j<n. \<not> finished (runs_retrieve client (k + j)) \<Longrightarrow>
   finished (runs_retrieve client (k + n)) \<Longrightarrow>
   poll_passes (Suc n) client eval_run eval_obj k tr =
     (tr @ concat (replicate n
              [Runs_Retrieve (run_id eval_run) (eval_object_id eval_obj), Sleep 5])
         @ fst (loop_body client eval_run eval_obj (k + n)),
      snd (loop_body client eval_run eval_obj (k + n)))"
proof (induction n arbitrary: k tr)
  case 0
  then have "snd (loop_body client eval_run eval_obj k) \<noteq> Continue"
    by (simp add: loop_body_Continue_iff)
  then show ?case
    by (cases "loop_body client eval_run eval_obj k")
       (auto split: control.splits)
next
  case (Suc n)
  from Suc.prems(1) have w: "\<not> finished (runs_retrieve client k)" by force
  from Suc.prems(1) have "\<forall>j<n. \<not> finished (runs_retrieve client (Suc k + j))"
    by (metis Suc_less_eq add_Suc_right add_Suc)
  moreover from Suc.prems(2) have "finished (runs_retrieve client (Suc k + n))" by simp
  ultimately have "poll_passes (Suc n) client eval_run eval_obj (Suc k)
      (tr @ [Runs_Retrieve (run_id eval_run) (eval_object_id eval_obj), Sleep 5]) =
     ((tr @ [Runs_Retrieve (run_id eval_run) (eval_object_id eval_obj), Sleep 5]) @
        concat (replicate n
              [Runs_Retrieve (run_id eval_run) (eval_object_id eval_obj), Sleep 5])
         @ fst (loop_body client eval_run eval_obj (Suc k + n)),
      snd (loop_body client eval_run eval_obj (Suc k + n)))"
    by (rule Suc.IH)
  with w show ?case
    by (subst poll_passes.simps) (simp add: loop_body_waiting)
qed

lemma poll_loop_as_passes:
  assumes "poll_loop client eval_run eval_obj k tr = Some (t, e)"
  shows "\<exists>n ctl. poll_passes n client eval_run eval_obj k tr = (t, ctl) \<and> ctl \<noteq> Continue \<and>
           e = (case ctl of Raise x \<Rightarrow> Some x | _ \<Rightarrow> None)"
proof -
  from poll_loop_Some_finished [OF assms] obtain m
    where "finished (runs_retrieve client (k + m))" by blast
  from first_finished_exists [OF this] obtain n
    where w: "\<forall>j<n. \<not> finished (runs_retrieve client (k + j))"
      and f: "finished (runs_retrieve client (k + n))" by blast
  from f have c: "snd (loop_body client eval_run eval_obj (k + n)) \<noteq> Continue"
    by (simp add: loop_body_Continue_iff)
  from poll_loop_first_finished [OF w f, of eval_run eval_obj tr] assms
  have "t = tr @ concat (replicate n
              [Runs_Retrieve (run_id eval_run) (eval_object_id eval_obj), Sleep 5])
         @ fst (loop_body client eval_run eval_obj (k + n))"
    and "e = (case snd (loop_body client eval_run eval_obj (k + n)) of
                Raise x \<Rightarrow> Some x | _ \<Rightarrow> None)"
    by simp_all
  with poll_passes_first_finished [OF w f, of eval_run eval_obj tr] c
  show ?thesis by blast
qed

lemma in_concat_replicate: "x \<in> set (concat (replicate i xs)) \<Longrightarrow> x \<in> set xs"
  by (simp split: if_splits)

lemma sleep_in_waiting:
  "Sleep d \<in> set (concat (replicate i [Runs_Retrieve a b, Sleep 5])) \<Longrightarrow> d = 5"
  using in_concat_replicate [of "Sleep d" i "[Runs_Retrieve a b, Sleep 5]"] by simp

lemma build_df_sample:
  "build_df [sample_item ''a'', sample_item ''b''] =
     Inr \<lparr>columns = [''prompt'', ''reference'', ''model_response'', ''grading_results''],
          rows = [[Str_Cell ''prompt a'', Str_Cell ''reference a'', Str_Cell ''response a'',
                   Str_Cell ''grading a''],
                  [Str_Cell ''prompt b'', Str_Cell ''reference b'', Str_Cell ''response b'',
                   Str_Cell ''grading b'']]\<rparr>"
  by (simp add: build_df_def prompt_of_def reference_of_def model_response_of_def
      grading_results_of_def sample_item_def bind_err_def dict_getitem_def pd_DataFrame_def
      store_column_def upt_rec)


section \<open>The polling loop\<close>

text \<open>
  Claim C1. The loop is left on, and only on, a retrieval whose status is
  \<^verbatim>\<open>"completed"\<close> or \<^verbatim>\<open>"failed"\<close>. If the first such retrieval is the one numbered
  \<open>n\<close>, the loop returns after \<open>n\<close> passes that each retrieve and sleep, followed by the
  pass that retrieves, lists the output items and displays the table (or raises while
  building it). A pass whose retrieval has any other status does nothing but retrieve and
  sleep, and the loop goes round again. The loop returns exactly when some retrieval has one
  of the two statuses.
\<close>

theorem poll_loop_exits_at_first_finished:
  "((\<forall>j<n. \<not> finished (runs_retrieve client j)) \<and> finished (runs_retrieve client n) \<longrightarrow>
      poll_loop client eval_run eval_obj 0 tr =
        Some (tr @ concat (replicate n
                [Runs_Retrieve (run_id eval_run) (eval_object_id eval_obj), Sleep 5]) @
              [Runs_Retrieve (run_id eval_run) (eval_object_id eval_obj),
               Output_Items_List (run_id (runs_retrieve client n)) (eval_object_id eval_obj)] @
              (case build_df (output_items_list client) of
                 Inl e \<Rightarrow> [] | Inr df \<Rightarrow> [Display df]),
              case build_df (output_items_list client) of
                Inl e \<Rightarrow> Some e | Inr df \<Rightarrow> None)) \<and>
   (\<not> finished (runs_retrieve client k) \<longrightarrow>
      loop_body client eval_run eval_obj k =
        ([Runs_Retrieve (run_id eval_run) (eval_object_id eval_obj), Sleep 5], Continue) \<and>
      poll_loop client eval_run eval_obj k tr =
        poll_loop client eval_run eval_obj (Suc k)
          (tr @ [Runs_Retrieve (run_id eval_run) (eval_object_id eval_obj), Sleep 5])) \<and>
   ((\<exists>res. poll_loop client eval_run eval_obj 0 tr = Some res) \<longleftrightarrow>
    (\<exists>n. finished (runs_retrieve client n)))"
proof (intro conjI impI)
  assume h: "(\<forall>j<n. \<not> finished (runs_retrieve client j)) \<and> finished (runs_retrieve client n)"
  then have "\<forall>j<n. \<not> finished (runs_retrieve client (0 + j))"
    and f: "finished (runs_retrieve client (0 + n))" by simp_all
  from poll_loop_first_finished [OF this, of eval_run eval_obj tr] f
  show "poll_loop client eval_run eval_obj 0 tr =
        Some (tr @ concat (replicate n
                [Runs_Retrieve (run_id eval_run) (eval_object_id eval_obj), Sleep 5]) @
              [Runs_Retrieve (run_id eval_run) (eval_object_id eval_obj),
               Output_Items_List (run_id (runs_retrieve client n)) (eval_object_id eval_obj)] @
              (case build_df (output_items_list client) of
                 Inl e \<Rightarrow> [] | Inr df \<Rightarrow> [Display df]),
              case build_df (output_items_list client) of
                Inl e \<Rightarrow> Some e | Inr df \<Rightarrow> None)"
    by (simp add: loop_body_finished split: sum.splits)
next
  assume "\<not> finished (runs_retrieve client k)"
  then show "loop_body client eval_run eval_obj k =
        ([Runs_Retrieve (run_id eval_run) (eval_object_id eval_obj), Sleep 5], Continue)"
    by (rule loop_body_waiting)
next
  assume "\<not> finished (runs_retrieve client k)"
  then show "poll_loop client eval_run eval_obj k tr =
        poll_loop client eval_run eval_obj (Suc k)
          (tr @ [Runs_Retrieve (run_id eval_run) (eval_object_id eval_obj), Sleep 5])"
    by (rule poll_loop_waiting)
next
  show "(\<exists>res. poll_loop client eval_run eval_obj 0 tr = Some res) \<longleftrightarrow>
    (\<exists>n. finished (runs_retrieve client n))"
  proof
    assume "\<exists>res. poll_loop client eval_run eval_obj 0 tr = Some res"
    then obtain res where "poll_loop client eval_run eval_obj 0 tr = Some res" by blast
    from poll_loop_Some_finished [OF this] show "\<exists>n. finished (runs_retrieve client n)"
      by simp
  next
    assume "\<exists>n. finished (runs_retrieve client n)"
    then obtain m where "finished (runs_retrieve client (0 + m))" by auto
    from first_finished_exists [OF this] obtain n
      where a: "\<forall>j<n. \<not> finished (runs_retrieve client (0 + j))"
        and b: "finished (runs_retrieve client (0 + n))" by blast
    from poll_loop_first_finished [OF a b, of eval_run eval_obj tr]
    show "\<exists>res. poll_loop client eval_run eval_obj 0 tr = Some res" by blast
  qed
qed

theorem poll_loop_exits_at_first_finished_witness:
  "\<not> finished (runs_retrieve (sample_service ''failed'') 0) \<and>
   \<not> finished (runs_retrieve (sample_service ''failed'') 1) \<and>
   finished (runs_retrieve (sample_service ''failed'') 2) \<and>
   poll_loop (sample_service ''failed'') \<lparr>run_id = ''evalrun_1'', status = ''queued''\<rparr>
       \<lparr>eval_object_id = ''eval_1''\<rparr> 0 [] =
     Some ([Runs_Retrieve ''evalrun_1'' ''eval_1'', Sleep 5,
            Runs_Retrieve ''evalrun_1'' ''eval_1'', Sleep 5,
            Runs_Retrieve ''evalrun_1'' ''eval_1'',
            Output_Items_List ''evalrun_1'' ''eval_1'',
            Display \<lparr>columns = [''prompt'', ''reference'', ''model_response'', ''grading_results''],
              rows = [[Str_Cell ''prompt a'', Str_Cell ''reference a'', Str_Cell ''response a'',
                   Str_Cell ''grading a''],
                  [Str_Cell ''prompt b'', Str_Cell ''reference b'', Str_Cell ''response b'',
                   Str_Cell ''grading b'']]\<rparr>],
           None) \<and>
   loop_body (sample_service ''failed'') \<lparr>run_id = ''evalrun_1'', status = ''queued''\<rparr>
       \<lparr>eval_object_id = ''eval_1''\<rparr> 1 =
     ([Runs_Retrieve ''evalrun_1'' ''eval_1'', Sleep 5], Continue)"
  using poll_loop_exits_at_first_finished
    [of 2 "sample_service ''failed''" "\<lparr>run_id = ''evalrun_1'', status = ''queued''\<rparr>"
        "\<lparr>eval_object_id = ''eval_1''\<rparr>" "[]" 1]
  by (simp add: sample_service_def build_df_sample numeral_2_eq_2)

text \<open>
  Claim C3. If no retrieval ever has status \<^verbatim>\<open>"completed"\<close> or \<^verbatim>\<open>"failed"\<close>, the
  loop never returns: it has no result, and after any number \<open>n\<close> of passes it is still
  running, having made \<open>n\<close> retrieve calls.
\<close>

theorem poll_loop_runs_for_ever:
  "\<forall>j. \<not> finished (runs_retrieve client j) \<Longrightarrow>
   poll_loop client eval_run eval_obj 0 tr = None \<and>
   (\<forall>n. snd (poll_passes n client eval_run eval_obj 0 tr) = Continue \<and>
        length (filter (\<lambda>ev. ev = Runs_Retrieve (run_id eval_run) (eval_object_id eval_obj))
                  (fst (poll_passes n client eval_run eval_obj 0 []))) = n)"
proof (intro conjI allI)
  assume h: "\<forall>j. \<not> finished (runs_retrieve client j)"
  then have "\<forall>j. \<not> finished (runs_retrieve client (0 + j))" by simp
  then show "poll_loop client eval_run eval_obj 0 tr = None" by (rule poll_loop_never)
  fix n
  from h have w: "\<forall>j<n. \<not> finished (runs_retrieve client (0 + j))" by simp
  from poll_passes_waiting [OF w]
  show "snd (poll_passes n client eval_run eval_obj 0 tr) = Continue" by simp
  have "length (filter (\<lambda>ev. ev = Runs_Retrieve (run_id eval_run) (eval_object_id eval_obj))
          (concat (replicate n
             [Runs_Retrieve (run_id eval_run) (eval_object_id eval_obj), Sleep 5]))) = n"
    by (induction n) simp_all
  with poll_passes_waiting [OF w, of eval_run eval_obj "[]"]
  show "length (filter (\<lambda>ev. ev = Runs_Retrieve (run_id eval_run) (eval_object_id eval_obj))
                  (fst (poll_passes n client eval_run eval_obj 0 []))) = n"
    by simp
qed

theorem poll_loop_runs_for_ever_witness:
  "(\<forall>j. \<not> finished (runs_retrieve stuck_service j)) \<and>
   poll_loop stuck_service \<lparr>run_id = ''evalrun_1'', status = ''queued''\<rparr>
     \<lparr>eval_object_id = ''eval_1''\<rparr> 0 [] = None \<and>
   snd (poll_passes 1000 stuck_service \<lparr>run_id = ''evalrun_1'', status = ''queued''\<rparr>
     \<lparr>eval_object_id = ''eval_1''\<rparr> 0 []) = Continue"
proof -
  have h: "\<forall>j. \<not> finished (runs_retrieve stuck_service j)"
    by (simp add: stuck_service_def)
  note r = poll_loop_runs_for_ever [OF h, of "\<lparr>run_id = ''evalrun_1'', status = ''queued''\<rparr>"
     "\<lparr>eval_object_id = ''eval_1''\<rparr>" "[]"]
  from r have a: "poll_loop stuck_service \<lparr>run_id = ''evalrun_1'', status = ''queued''\<rparr>
     \<lparr>eval_object_id = ''eval_1''\<rparr> 0 [] = None" by (rule conjunct1)
  from r have "\<forall>n. snd (poll_passes n stuck_service \<lparr>run_id = ''evalrun_1'', status = ''queued''\<rparr>
     \<lparr>eval_object_id = ''eval_1''\<rparr> 0 []) = Continue \<and>
        length (filter (\<lambda>ev. ev = Runs_Retrieve (run_id \<lparr>run_id = ''evalrun_1'', status = ''queued''\<rparr>)
           (eval_object_id \<lparr>eval_object_id = ''eval_1''\<rparr>))
                  (fst (poll_passes n stuck_service \<lparr>run_id = ''evalrun_1'', status = ''queued''\<rparr>
     \<lparr>eval_object_id = ''eval_1''\<rparr> 0 []))) = n" by (rule conjunct2)
  then have b: "snd (poll_passes 1000 stuck_service \<lparr>run_id = ''evalrun_1'', status = ''queued''\<rparr>
     \<lparr>eval_object_id = ''eval_1''\<rparr> 0 []) = Continue" by (elim allE conjE)
  from h a b show ?thesis by (intro conjI)
qed

text \<open>
  Claim C4. A pass that does not see \<^verbatim>\<open>"completed"\<close> or \<^verbatim>\<open>"failed"\<close> retrieves and
  then sleeps 5 seconds, and the next pass begins with the next retrieve call: \<open>n\<close> such
  passes are \<open>n\<close> times a retrieve call followed by a sleep of 5. Every sleep of the loop,
  in a run cut off after any number of passes and in a run that returns, lasts 5 seconds.
\<close>

theorem poll_loop_sleeps_five:
  "(\<not> finished (runs_retrieve client k) \<longrightarrow>
      loop_body client eval_run eval_obj k =
        ([Runs_Retrieve (run_id eval_run) (eval_object_id eval_obj), Sleep 5], Continue)) \<and>
   ((\<forall>j<n. \<not> finished (runs_retrieve client j)) \<longrightarrow>
      poll_passes n client eval_run eval_obj 0 [] =
        (concat (replicate n
           [Runs_Retrieve (run_id eval_run) (eval_object_id eval_obj), Sleep 5]), Continue)) \<and>
   (\<forall>t ctl d. poll_passes n client eval_run eval_obj 0 [] = (t, ctl) \<and> Sleep d \<in> set t
        \<longrightarrow> d = 5) \<and>
   (\<forall>t e d. poll_loop client eval_run eval_obj 0 [] = Some (t, e) \<and> Sleep d \<in> set t
        \<longrightarrow> d = 5)"
proof (intro conjI impI allI)
  assume "\<not> finished (runs_retrieve client k)"
  then show "loop_body client eval_run eval_obj k =
        ([Runs_Retrieve (run_id eval_run) (eval_object_id eval_obj), Sleep 5], Continue)"
    by (rule loop_body_waiting)
next
  assume "\<forall>j<n. \<not> finished (runs_retrieve client j)"
  then have "\<forall>j<n. \<not> finished (runs_retrieve client (0 + j))" by simp
  from poll_passes_waiting [OF this, of eval_run eval_obj "[]"]
  show "poll_passes n client eval_run eval_obj 0 [] =
        (concat (replicate n
           [Runs_Retrieve (run_id eval_run) (eval_object_id eval_obj), Sleep 5]), Continue)"
    by simp
next
  fix t ctl d
  assume "poll_passes n client eval_run eval_obj 0 [] = (t, ctl) \<and> Sleep d \<in> set t"
  then show "d = 5" using poll_passes_sleeps [of n client eval_run eval_obj 0 "[]" t ctl d]
    by simp
next
  fix t e d
  assume a: "poll_loop client eval_run eval_obj 0 [] = Some (t, e) \<and> Sleep d \<in> set t"
  then obtain m where "finished (runs_retrieve client (0 + m))"
    using poll_loop_Some_finished by blast
  from first_finished_exists [OF this] obtain i
    where w: "\<forall>j<i. \<not> finished (runs_retrieve client (0 + j))"
      and f: "finished (runs_retrieve client (0 + i))" by blast
  from poll_loop_first_finished [OF w f, of eval_run eval_obj "[]"] a
  have t: "t = concat (replicate i
           [Runs_Retrieve (run_id eval_run) (eval_object_id eval_obj), Sleep 5]) @
           fst (loop_body client eval_run eval_obj (0 + i))"
    by simp
  from f have "Sleep d \<notin> set (fst (loop_body client eval_run eval_obj (0 + i)))"
    by (simp add: loop_body_finished split: sum.splits)
  with t a have "Sleep d \<in> set (concat (replicate i
           [Runs_Retrieve (run_id eval_run) (eval_object_id eval_obj), Sleep 5]))"
    by simp
  then show "d = 5" by (rule sleep_in_waiting)
qed

theorem poll_loop_sleeps_five_witness:
  "\<not> finished (runs_retrieve (sample_service ''completed'') 0) \<and>
   \<not> finished (runs_retrieve (sample_service ''completed'') 1) \<and>
   loop_body (sample_service ''completed'') \<lparr>run_id = ''evalrun_1'', status = ''queued''\<rparr>
       \<lparr>eval_object_id = ''eval_1''\<rparr> 0 =
     ([Runs_Retrieve ''evalrun_1'' ''eval_1'', Sleep 5], Continue) \<and>
   poll_passes 2 (sample_service ''completed'') \<lparr>run_id = ''evalrun_1'', status = ''queued''\<rparr>
       \<lparr>eval_object_id = ''eval_1''\<rparr> 0 [] =
     ([Runs_Retrieve ''evalrun_1'' ''eval_1'', Sleep 5,
       Runs_Retrieve ''evalrun_1'' ''eval_1'', Sleep 5], Continue)"
proof -
  let ?c = "sample_service ''completed''"
  let ?er = "\<lparr>run_id = ''evalrun_1'', status = ''queued''\<rparr>"
  let ?eo = "\<lparr>eval_object_id = ''eval_1''\<rparr>"
  have h1: "\<not> finished (runs_retrieve ?c 0)"
    by (simp add: sample_service_def)
  have h2: "\<forall>j<2. \<not> finished (runs_retrieve ?c j)"
    by (simp add: sample_service_def)
  note r = poll_loop_sleeps_five [of ?c 0 ?er ?eo 2]
  from conjunct1 [OF r] h1 have c1: "loop_body ?c ?er ?eo 0 =
      ([Runs_Retrieve (run_id ?er) (eval_object_id ?eo), Sleep 5], Continue)"
    by (rule mp)
  from conjunct1 [OF conjunct2 [OF r]] h2 have c2: "poll_passes 2 ?c ?er ?eo 0 [] =
        (concat (replicate 2
           [Runs_Retrieve (run_id ?er) (eval_object_id ?eo), Sleep 5]), Continue)"
    by (rule mp)
  from c1 have d1: "loop_body ?c ?er ?eo 0 =
      ([Runs_Retrieve ''evalrun_1'' ''eval_1'', Sleep 5], Continue)" by simp
  from c2 have d2: "poll_passes 2 ?c ?er ?eo 0 [] =
     ([Runs_Retrieve ''evalrun_1'' ''eval_1'', Sleep 5,
       Runs_Retrieve ''evalrun_1'' ''eval_1'', Sleep 5], Continue)"
    by (simp add: numeral_2_eq_2)
  have h3: "\<not> finished (runs_retrieve ?c 1)"
    by (simp add: sample_service_def)
  from h1 h3 d1 d2 show ?thesis by (intro conjI)
qed

text \<open>
  Claim C5. A retrieval with status \<^verbatim>\<open>"failed"\<close> is handled as one with status
  \<^verbatim>\<open>"completed"\<close>: for two services that differ only in which of the two statuses the
  retrieval numbered \<open>k\<close> has, the pass is the same: the output items are listed, the table
  is built and displayed, and the loop is left. Nothing is retried and there is no branch
  for the failure. When no earlier retrieval ends the loop, the two whole runs are equal.
\<close>

theorem failed_run_processed_as_completed:
  assumes "status (runs_retrieve client k) = ''completed''"
    and "status (runs_retrieve client' k) = ''failed''"
    and "run_id (runs_retrieve client' k) = run_id (runs_retrieve client k)"
    and "output_items_list client' = output_items_list client"
  shows "loop_body client' eval_run eval_obj k = loop_body client eval_run eval_obj k \<and>
     loop_body client' eval_run eval_obj k =
       (case build_df (output_items_list client') of
          Inl e \<Rightarrow> ([Runs_Retrieve (run_id eval_run) (eval_object_id eval_obj),
                     Output_Items_List (run_id (runs_retrieve client' k)) (eval_object_id eval_obj)],
                    Raise e)
        | Inr df \<Rightarrow> ([Runs_Retrieve (run_id eval_run) (eval_object_id eval_obj),
                      Output_Items_List (run_id (runs_retrieve client' k)) (eval_object_id eval_obj),
                      Display df], Break)) \<and>
     ((\<forall>j<k. \<not> finished (runs_retrieve client j) \<and> \<not> finished (runs_retrieve client' j)) \<longrightarrow>
        poll_loop client' eval_run eval_obj 0 tr = poll_loop client eval_run eval_obj 0 tr \<and>
        poll_loop client' eval_run eval_obj 0 tr \<noteq> None)"
proof (intro conjI impI)
  from assms(1) have f: "finished (runs_retrieve client k)" by simp
  from assms(2) have f': "finished (runs_retrieve client' k)" by simp
  show same: "loop_body client' eval_run eval_obj k = loop_body client eval_run eval_obj k"
    by (simp only: loop_body_finished [OF f] loop_body_finished [OF f'] assms(3) assms(4))
  show "loop_body client' eval_run eval_obj k =
       (case build_df (output_items_list client') of
          Inl e \<Rightarrow> ([Runs_Retrieve (run_id eval_run) (eval_object_id eval_obj),
                     Output_Items_List (run_id (runs_retrieve client' k)) (eval_object_id eval_obj)],
                    Raise e)
        | Inr df \<Rightarrow> ([Runs_Retrieve (run_id eval_run) (eval_object_id eval_obj),
                      Output_Items_List (run_id (runs_retrieve client' k)) (eval_object_id eval_obj),
                      Display df], Break))"
    by (rule loop_body_finished [OF f'])
  assume w: "\<forall>j<k. \<not> finished (runs_retrieve client j) \<and> \<not> finished (runs_retrieve client' j)"
  then have w1: "\<forall>j<k. \<not> finished (runs_retrieve client (0 + j))"
    and w2: "\<forall>j<k. \<not> finished (runs_retrieve client' (0 + j))" by simp_all
  from f f' have g: "finished (runs_retrieve client (0 + k))"
    and g': "finished (runs_retrieve client' (0 + k))" by simp_all
  from poll_loop_first_finished [OF w1 g, of eval_run eval_obj tr]
    poll_loop_first_finished [OF w2 g', of eval_run eval_obj tr] same
  show "poll_loop client' eval_run eval_obj 0 tr = poll_loop client eval_run eval_obj 0 tr"
    by simp
  from poll_loop_first_finished [OF w2 g', of eval_run eval_obj tr]
  show "poll_loop client' eval_run eval_obj 0 tr \<noteq> None" by simp
qed

theorem failed_run_processed_as_completed_witness:
  "status (runs_retrieve (sample_service ''completed'') 2) = ''completed'' \<and>
   status (runs_retrieve (sample_service ''failed'') 2) = ''failed'' \<and>
   loop_body (sample_service ''failed'') \<lparr>run_id = ''evalrun_1'', status = ''queued''\<rparr>
       \<lparr>eval_object_id = ''eval_1''\<rparr> 2 =
   loop_body (sample_service ''completed'') \<lparr>run_id = ''evalrun_1'', status = ''queued''\<rparr>
       \<lparr>eval_object_id = ''eval_1''\<rparr> 2 \<and>
   loop_body (sample_service ''failed'') \<lparr>run_id = ''evalrun_1'', status = ''queued''\<rparr>
       \<lparr>eval_object_id = ''eval_1''\<rparr> 2 =
     ([Runs_Retrieve ''evalrun_1'' ''eval_1'', Output_Items_List ''evalrun_1'' ''eval_1'',
       Display \<lparr>columns = [''prompt'', ''reference'', ''model_response'', ''grading_results''],
          rows = [[Str_Cell ''prompt a'', Str_Cell ''reference a'', Str_Cell ''response a'',
                   Str_Cell ''grading a''],
                  [Str_Cell ''prompt b'', Str_Cell ''reference b'', Str_Cell ''response b'',
                   Str_Cell ''grading b'']]\<rparr>],
      Break) \<and>
   poll_loop (sample_service ''failed'') \<lparr>run_id = ''evalrun_1'', status = ''queued''\<rparr>
       \<lparr>eval_object_id = ''eval_1''\<rparr> 0 [] =
   poll_loop (sample_service ''completed'') \<lparr>run_id = ''evalrun_1'', status = ''queued''\<rparr>
       \<lparr>eval_object_id = ''eval_1''\<rparr> 0 []"
proof -
  let ?c = "sample_service ''completed''"
  let ?c' = "sample_service ''failed''"
  let ?er = "\<lparr>run_id = ''evalrun_1'', status = ''queued''\<rparr>"
  let ?eo = "\<lparr>eval_object_id = ''eval_1''\<rparr>"
  have h1: "status (runs_retrieve ?c 2) = ''completed''" by (simp add: sample_service_def)
  have h2: "status (runs_retrieve ?c' 2) = ''failed''" by (simp add: sample_service_def)
  have h3: "run_id (runs_retrieve ?c' 2) = run_id (runs_retrieve ?c 2)"
    by (simp add: sample_service_def)
  have h4: "output_items_list ?c' = output_items_list ?c" by (simp add: sample_service_def)
  have h5: "\<forall>j<2. \<not> finished (runs_retrieve ?c j) \<and> \<not> finished (runs_retrieve ?c' j)"
    by (simp add: sample_service_def)
  note r = failed_run_processed_as_completed [OF h1 h2 h3 h4, of ?er ?eo "[]"]
  from conjunct1 [OF r] have a: "loop_body ?c' ?er ?eo 2 = loop_body ?c ?er ?eo 2" .
  from conjunct1 [OF conjunct2 [OF r]]
  have b: "loop_body ?c' ?er ?eo 2 =
     ([Runs_Retrieve ''evalrun_1'' ''eval_1'', Output_Items_List ''evalrun_1'' ''eval_1'',
       Display \<lparr>columns = [''prompt'', ''reference'', ''model_response'', ''grading_results''],
          rows = [[Str_Cell ''prompt a'', Str_Cell ''reference a'', Str_Cell ''response a'',
                   Str_Cell ''grading a''],
                  [Str_Cell ''prompt b'', Str_Cell ''reference b'', Str_Cell ''response b'',
                   Str_Cell ''grading b'']]\<rparr>],
      Break)"
    by (simp add: sample_service_def build_df_sample)
  from conjunct2 [OF conjunct2 [OF r]] h5
  have "poll_loop ?c' ?er ?eo 0 [] = poll_loop ?c ?er ?eo 0 [] \<and>
        poll_loop ?c' ?er ?eo 0 [] \<noteq> None" by (rule mp)
  then have c: "poll_loop ?c' ?er ?eo 0 [] = poll_loop ?c ?er ?eo 0 []" by (rule conjunct1)
  from h1 h2 a b c show ?thesis by (intro conjI)
qed


section \<open>The data source\<close>

lemma item_schema_eq:
  "item_schema =
     PDict [(''type'', PStr ''object''),
            (''properties'',
               PDict [(''media_url'', PDict [(''type'', PStr ''string'')]),
                      (''reference'', PDict [(''type'', PStr ''string'')]),
                      (''prompt'', PDict [(''type'', PStr ''string'')])]),
            (''required'', PList [PStr ''media_url'', PStr ''reference'', PStr ''prompt''])]"
  by (simp add: item_schema_def data_source_config_def)

lemma satisfies_item_schema:
  "satisfies_schema item_schema
     (PDict [(''media_url'', m), (''reference'', r), (''prompt'', p)]) \<longleftrightarrow>
   (\<exists>s. m = PStr s) \<and> (\<exists>s. r = PStr s) \<and> (\<exists>s. p = PStr s)"
proof -
  have str: "\<And>v. has_json_type (PStr ''string'') v \<longleftrightarrow> (\<exists>s. v = PStr s)"
    by (case_tac v) simp_all
  show ?thesis
    by (simp add: item_schema_eq satisfies_schema_def has_required_def property_ok_def str)
qed

lemma item_of_example_present:
  assumes "map_of ex ''media_url'' = Some m" "map_of ex ''reference'' = Some r"
    "map_of ex ''prompt'' = Some p"
  shows "item_of_example ex =
     Inr (PDict [(''item'', PDict [(''media_url'', m), (''reference'', r), (''prompt'', p)])])"
  using assms by (simp add: item_of_example_def dict_getitem_def bind_err_def)

lemma item_of_example_missing:
  assumes "map_of ex ''media_url'' = None \<or> map_of ex ''reference'' = None \<or>
    map_of ex ''prompt'' = None"
  shows "isl (item_of_example ex)"
  using assms
  by (auto simp add: item_of_example_def dict_getitem_def bind_err_def split: option.splits)

lemma append_items_closed:
  "\<forall>ex\<in>set rs. has_columns ex \<Longrightarrow> append_items rs acc = Inr (acc @ map item_from rs)"
proof (induction rs arbitrary: acc)
  case Nil
  show ?case by simp
next
  case (Cons ex rs)
  from Cons.prems have "has_columns ex" by simp
  then obtain m r p where "map_of ex ''media_url'' = Some m" "map_of ex ''reference'' = Some r"
    "map_of ex ''prompt'' = Some p" by auto
  then have "item_of_example ex = Inr (item_from ex)"
    by (simp add: item_of_example_present)
  moreover from Cons.prems have "\<forall>ex\<in>set rs. has_columns ex" by simp
  ultimately show ?case using Cons.IH by (simp add: bind_err_def)
qed

lemma take_three: "3 \<le> length xs \<Longrightarrow> take 3 xs = [xs ! 0, xs ! 1, xs ! 2]"
proof -
  assume "3 \<le> length xs"
  then obtain a b c ys where "xs = a # b # c # ys"
    by (metis Suc_le_length_iff numeral_3_eq_3)
  then show ?thesis by (simp add: numeral_3_eq_3)
qed

lemma build_evals_data_source_closed:
  assumes "dict_getitem dataset ''test'' = Inr test" and "3 \<le> length test"
    and "\<forall>i<3. has_columns (test ! i)"
  shows "build_evals_data_source dataset =
     Inr [item_from (test ! 0), item_from (test ! 1), item_from (test ! 2)]"
proof -
  from assms(3) have "has_columns (test ! 0)" "has_columns (test ! 1)" "has_columns (test ! 2)"
    by simp_all
  then have "\<forall>ex\<in>set [test ! 0, test ! 1, test ! 2]. has_columns ex" by simp
  from append_items_closed [OF this, of "[]"] assms(1,2) show ?thesis
    by (auto simp add: build_evals_data_source_def bind_err_def select_range_def take_three)
qed

lemma sample_build:
  "build_evals_data_source sample_dataset =
     Inr [PDict [(''item'', PDict [(''media_url'', PStr ''https://example.org/a.jpg''),
                                   (''reference'', PStr ''reference a''),
                                   (''prompt'', PStr ''prompt a'')])],
          PDict [(''item'', PDict [(''media_url'', PStr ''https://example.org/b.jpg''),
                                   (''reference'', PStr ''reference b''),
                                   (''prompt'', PStr ''prompt b'')])],
          PDict [(''item'', PDict [(''media_url'', PStr ''https://example.org/c.jpg''),
                                   (''reference'', PStr ''reference c''),
                                   (''prompt'', PStr ''prompt c'')])]]"
  by (simp add: build_evals_data_source_def sample_dataset_def sample_row_def dict_getitem_def
      bind_err_def select_range_def item_of_example_def numeral_3_eq_3)

text \<open>
  Claim C7, as amended. For a dataset whose \<^verbatim>\<open>"test"\<close> split has at least 3 rows, each
  of the first three having the columns \<^verbatim>\<open>media_url\<close>, \<^verbatim>\<open>reference\<close> and
  \<^verbatim>\<open>prompt\<close>, \<open>evals_data_source\<close> is a list of exactly 3 elements, the i-th being
  \<^verbatim>\<open>{"item": d}\<close> where \<open>d\<close> has exactly those three keys, in that order, with the values
  of the i-th row. Such an element's \<open>d\<close> satisfies the \<^verbatim>\<open>item_schema\<close> of
  \<open>data_source_config\<close>, whose required keys are exactly those three, exactly when the three
  values are strings.
\<close>

theorem evals_data_source_three_items:
  assumes "dict_getitem dataset ''test'' = Inr test" and "3 \<le> length test"
    and "\<forall>i<3. has_columns (test ! i)"
  shows "build_evals_data_source dataset =
           Inr [item_from (test ! 0), item_from (test ! 1), item_from (test ! 2)] \<and>
         (\<forall>i<3. getitem_key (item_from (test ! i)) ''item'' = Inr (fields_from (test ! i)) \<and>
            (satisfies_schema item_schema (fields_from (test ! i)) \<longleftrightarrow>
             (\<exists>s. map_of (test ! i) ''media_url'' = Some (PStr s)) \<and>
             (\<exists>s. map_of (test ! i) ''reference'' = Some (PStr s)) \<and>
             (\<exists>s. map_of (test ! i) ''prompt'' = Some (PStr s)))) \<and>
         getitem_key item_schema ''required'' =
           Inr (PList [PStr ''media_url'', PStr ''reference'', PStr ''prompt''])"
proof (intro conjI allI impI)
  show "build_evals_data_source dataset =
           Inr [item_from (test ! 0), item_from (test ! 1), item_from (test ! 2)]"
    using assms by (rule build_evals_data_source_closed)
next
  fix i :: nat
  show "getitem_key (item_from (test ! i)) ''item'' = Inr (fields_from (test ! i))" by simp
next
  fix i :: nat
  assume "i < 3"
  with assms(3) have "has_columns (test ! i)" by simp
  then show "satisfies_schema item_schema (fields_from (test ! i)) \<longleftrightarrow>
             (\<exists>s. map_of (test ! i) ''media_url'' = Some (PStr s)) \<and>
             (\<exists>s. map_of (test ! i) ''reference'' = Some (PStr s)) \<and>
             (\<exists>s. map_of (test ! i) ''prompt'' = Some (PStr s))"
    by (auto simp add: satisfies_item_schema)
next
  show "getitem_key item_schema ''required'' =
           Inr (PList [PStr ''media_url'', PStr ''reference'', PStr ''prompt''])"
    by (simp add: item_schema_eq)
qed

theorem evals_data_source_three_items_witness:
  "dict_getitem sample_dataset ''test'' =
     Inr [sample_row ''a'', sample_row ''b'', sample_row ''c'', sample_row ''d''] \<and>
   3 \<le> length [sample_row ''a'', sample_row ''b'', sample_row ''c'', sample_row ''d''] \<and>
   build_evals_data_source sample_dataset =
     Inr [PDict [(''item'', PDict [(''media_url'', PStr ''https://example.org/a.jpg''),
                                   (''reference'', PStr ''reference a''),
                                   (''prompt'', PStr ''prompt a'')])],
          PDict [(''item'', PDict [(''media_url'', PStr ''https://example.org/b.jpg''),
                                   (''reference'', PStr ''reference b''),
                                   (''prompt'', PStr ''prompt b'')])],
          PDict [(''item'', PDict [(''media_url'', PStr ''https://example.org/c.jpg''),
                                   (''reference'', PStr ''reference c''),
                                   (''prompt'', PStr ''prompt c'')])]] \<and>
   satisfies_schema item_schema
     (PDict [(''media_url'', PStr ''https://example.org/b.jpg''),
             (''reference'', PStr ''reference b''),
             (''prompt'', PStr ''prompt b'')])"
proof -
  let ?test = "[sample_row ''a'', sample_row ''b'', sample_row ''c'', sample_row ''d'']"
  have h1: "dict_getitem sample_dataset ''test'' = Inr ?test"
    by (simp add: sample_dataset_def dict_getitem_def)
  have h2: "3 \<le> length ?test" by simp
  have h3: "\<forall>i<3. has_columns (?test ! i)"
    by (simp add: sample_row_def numeral_3_eq_3 less_Suc_eq)
  note r = evals_data_source_three_items [OF h1 h2 h3]
  from conjunct1 [OF r]
  have a: "build_evals_data_source sample_dataset =
     Inr [PDict [(''item'', PDict [(''media_url'', PStr ''https://example.org/a.jpg''),
                                   (''reference'', PStr ''reference a''),
                                   (''prompt'', PStr ''prompt a'')])],
          PDict [(''item'', PDict [(''media_url'', PStr ''https://example.org/b.jpg''),
                                   (''reference'', PStr ''reference b''),
                                   (''prompt'', PStr ''prompt b'')])],
          PDict [(''item'', PDict [(''media_url'', PStr ''https://example.org/c.jpg''),
                                   (''reference'', PStr ''reference c''),
                                   (''prompt'', PStr ''prompt c'')])]]"
    by (simp add: sample_row_def)
  from spec [OF conjunct1 [OF conjunct2 [OF r]], of 1]
  have "satisfies_schema item_schema (fields_from (?test ! 1)) \<longleftrightarrow>
             (\<exists>s. map_of (?test ! 1) ''media_url'' = Some (PStr s)) \<and>
             (\<exists>s. map_of (?test ! 1) ''reference'' = Some (PStr s)) \<and>
             (\<exists>s. map_of (?test ! 1) ''prompt'' = Some (PStr s))"
    by simp
  then have b: "satisfies_schema item_schema
     (PDict [(''media_url'', PStr ''https://example.org/b.jpg''),
             (''reference'', PStr ''reference b''),
             (''prompt'', PStr ''prompt b'')])"
    by (simp add: sample_row_def)
  from h1 h2 a b show ?thesis by (intro conjI)
qed

text \<open>
  Without the condition on the columns the statement fails. Three test rows without a
  \<^verbatim>\<open>prompt\<close> column: building the list raises \<^verbatim>\<open>KeyError\<close>. Three test rows whose
  \<^verbatim>\<open>reference\<close> is \<^verbatim>\<open>None\<close>: the list is built, and its elements do not satisfy the
  schema.
\<close>

theorem evals_data_source_counterexample:
  "length [[(''media_url'', PStr ''u''), (''reference'', PStr ''r'')],
           [(''media_url'', PStr ''u''), (''reference'', PStr ''r'')],
           [(''media_url'', PStr ''u''), (''reference'', PStr ''r'')]] = 3 \<and>
   build_evals_data_source
     [(''test'', [[(''media_url'', PStr ''u''), (''reference'', PStr ''r'')],
                  [(''media_url'', PStr ''u''), (''reference'', PStr ''r'')],
                  [(''media_url'', PStr ''u''), (''reference'', PStr ''r'')]])] =
     Inl (KeyError ''prompt'') \<and>
   build_evals_data_source
     [(''test'', [[(''media_url'', PStr ''u''), (''reference'', PNone), (''prompt'', PStr ''p'')],
                  [(''media_url'', PStr ''u''), (''reference'', PNone), (''prompt'', PStr ''p'')],
                  [(''media_url'', PStr ''u''), (''reference'', PNone), (''prompt'', PStr ''p'')]])] =
     Inr [PDict [(''item'', PDict [(''media_url'', PStr ''u''), (''reference'', PNone), (''prompt'', PStr ''p'')])],
          PDict [(''item'', PDict [(''media_url'', PStr ''u''), (''reference'', PNone), (''prompt'', PStr ''p'')])],
          PDict [(''item'', PDict [(''media_url'', PStr ''u''), (''reference'', PNone), (''prompt'', PStr ''p'')])]] \<and>
   \<not> satisfies_schema item_schema
       (PDict [(''media_url'', PStr ''u''), (''reference'', PNone), (''prompt'', PStr ''p'')])"
  by (simp add: build_evals_data_source_def dict_getitem_def
      bind_err_def select_range_def item_of_example_def numeral_3_eq_3 satisfies_item_schema)


section \<open>The displayed table\<close>

lemma comprehension_all_Inr:
  "\<forall>x\<in>set xs. \<not> isl (f x) \<Longrightarrow> comprehension f xs = Inr (map (\<lambda>x. projr (f x)) xs)"
proof (induction xs)
  case Nil
  show ?case by simp
next
  case (Cons x xs)
  from Cons.prems obtain y where "f x = Inr y" by (cases "f x") auto
  with Cons show ?case by (simp add: bind_err_def)
qed

lemma comprehension_some_Inl:
  "\<exists>x\<in>set xs. isl (f x) \<Longrightarrow> isl (comprehension f xs)"
proof (induction xs)
  case Nil
  then show ?case by simp
next
  case (Cons x xs)
  show ?case
  proof (cases "f x")
    case (Inl e)
    then show ?thesis by (simp add: bind_err_def)
  next
    case (Inr y)
    with Cons.prems have "\<exists>x\<in>set xs. isl (f x)" by auto
    from Cons.IH [OF this] Inr show ?thesis
      by (cases "comprehension f xs") (simp_all add: bind_err_def)
  qed
qed

lemma map_upt_nth: "map (\<lambda>i. g (xs ! i)) [0..<length xs] = map g xs"
  by (rule nth_equalityI) simp_all

lemma length_store_column: "length (store_column col) = length col"
proof -
  have "\<And>ss. strings_of col = Some ss \<Longrightarrow> length ss = length col"
  proof (induction col rule: strings_of.induct)
    case 1
    then show ?case by simp
  next
    case (2 s vs)
    then show ?case by (cases "strings_of vs") auto
  qed simp_all
  then show ?thesis by (simp add: store_column_def split: option.split)
qed

lemma strings_of_PStr: "strings_of (map (\<lambda>x. PStr (f x)) xs) = Some (map f xs)"
  by (induction xs) simp_all

lemma store_column_strings:
  "store_column (map (\<lambda>x. PStr (f x)) xs) = map (\<lambda>x. Str_Cell (f x)) xs"
  by (simp add: store_column_def strings_of_PStr)

lemma pd_DataFrame_four:
  "pd_DataFrame [(n1, map f1 xs), (n2, map f2 xs), (n3, map f3 xs), (n4, map f4 xs)] =
     Inr \<lparr>columns = [n1, n2, n3, n4],
          rows = map (\<lambda>i. [store_column (map f1 xs) ! i, store_column (map f2 xs) ! i,
                            store_column (map f3 xs) ! i, store_column (map f4 xs) ! i])
                   [0..<length xs]\<rparr>"
  by (simp add: pd_DataFrame_def)

lemma bind_err_isl: "isl m \<Longrightarrow> isl (bind_err m f)"
  by (cases m) (simp_all add: bind_err_def)

lemma bind_err_Inr: "bind_err (Inr x) f = f x"
  by (simp add: bind_err_def)

lemma build_df_readable:
  assumes "\<forall>item\<in>set items. readable item"
  shows "build_df items =
     Inr \<lparr>columns = [''prompt'', ''reference'', ''model_response'', ''grading_results''],
          rows = map (\<lambda>i. [store_column (map (\<lambda>item. projr (prompt_of item)) items) ! i,
                            store_column (map (\<lambda>item. projr (reference_of item)) items) ! i,
                            store_column (map (\<lambda>item. projr (model_response_of item)) items) ! i,
                            store_column (map (\<lambda>item. projr (grading_results_of item)) items) ! i])
                   [0..<length items]\<rparr>"
proof -
  from assms have "\<forall>item\<in>set items. \<not> isl (prompt_of item)"
    "\<forall>item\<in>set items. \<not> isl (reference_of item)"
    "\<forall>item\<in>set items. \<not> isl (model_response_of item)"
    "\<forall>item\<in>set items. \<not> isl (grading_results_of item)" by simp_all
  then show ?thesis
    by (simp only: build_df_def comprehension_all_Inr bind_err_Inr pd_DataFrame_four)
qed

lemma build_df_unreadable:
  assumes "\<exists>item\<in>set items. \<not> readable item"
  shows "isl (build_df items)"
proof -
  from assms consider
    (p) "\<exists>item\<in>set items. isl (prompt_of item)"
    | (r) "\<forall>item\<in>set items. \<not> isl (prompt_of item)" "\<exists>item\<in>set items. isl (reference_of item)"
    | (m) "\<forall>item\<in>set items. \<not> isl (prompt_of item)" "\<forall>item\<in>set items. \<not> isl (reference_of item)"
          "\<exists>item\<in>set items. isl (model_response_of item)"
    | (g) "\<forall>item\<in>set items. \<not> isl (prompt_of item)" "\<forall>item\<in>set items. \<not> isl (reference_of item)"
          "\<forall>item\<in>set items. \<not> isl (model_response_of item)"
          "\<exists>item\<in>set items. isl (grading_results_of item)"
    by blast
  then show ?thesis
  proof cases
    case p
    then show ?thesis
      unfolding build_df_def by (intro bind_err_isl comprehension_some_Inl)
  next
    case r
    from r(2) have "isl (comprehension reference_of items)" by (rule comprehension_some_Inl)
    then show ?thesis
      unfolding build_df_def
      by (simp only: comprehension_all_Inr [OF r(1)] bind_err_Inr bind_err_isl)
  next
    case m
    from m(3) have "isl (comprehension model_response_of items)" by (rule comprehension_some_Inl)
    then show ?thesis
      unfolding build_df_def
      by (simp only: comprehension_all_Inr [OF m(1)] comprehension_all_Inr [OF m(2)]
          bind_err_Inr bind_err_isl)
  next
    case g
    from g(4) have "isl (comprehension grading_results_of items)" by (rule comprehension_some_Inl)
    then show ?thesis
      unfolding build_df_def
      by (simp only: comprehension_all_Inr [OF g(1)] comprehension_all_Inr [OF g(2)]
          comprehension_all_Inr [OF g(3)] bind_err_Inr bind_err_isl)
  qed
qed

lemma empty_not_readable:
  "sample_output (sample item) = [] \<or> results item = [] \<Longrightarrow> \<not> readable item"
  by (auto simp add: model_response_of_def grading_results_of_def bind_err_def)

lemma readable_values:
  assumes "readable item"
  shows "projr (prompt_of item) = the (map_of (datasource_item item) ''prompt'')"
    and "projr (reference_of item) = the (map_of (datasource_item item) ''reference'')"
    and "projr (model_response_of item) = content (hd (sample_output (sample item)))"
proof -
  from assms show "projr (prompt_of item) = the (map_of (datasource_item item) ''prompt'')"
    by (auto simp add: prompt_of_def dict_getitem_def split: option.splits)
  from assms show "projr (reference_of item) = the (map_of (datasource_item item) ''reference'')"
    by (auto simp add: reference_of_def dict_getitem_def split: option.splits)
  from assms show "projr (model_response_of item) = content (hd (sample_output (sample item)))"
    by (cases "sample_output (sample item)") (simp_all add: model_response_of_def bind_err_def)
qed

lemma grading_results_path:
  assumes "results item = PDict r # rest" and "map_of r ''sample'' = Some (PDict s)"
    and "map_of s ''output'' = Some (PList (PDict out0 # outs))"
    and "map_of out0 ''content'' = Some c"
  shows "grading_results_of item = Inr c"
  using assms by (simp add: grading_results_of_def bind_err_def)

lemma sample_item_readable: "readable (sample_item n)"
  by (simp add: prompt_of_def reference_of_def model_response_of_def grading_results_of_def
      sample_item_def bind_err_def dict_getitem_def)

lemma build_df_strings:
  assumes "\<forall>item\<in>set items.
      map_of (datasource_item item) ''prompt'' = Some (PStr (p item)) \<and>
      map_of (datasource_item item) ''reference'' = Some (PStr (q item)) \<and>
      sample_output (sample item) \<noteq> [] \<and>
      content (hd (sample_output (sample item))) = PStr (m item) \<and>
      grading_results_of item = Inr (PStr (g item))"
  shows "build_df items =
     Inr \<lparr>columns = [''prompt'', ''reference'', ''model_response'', ''grading_results''],
          rows = map (\<lambda>item. [Str_Cell (p item), Str_Cell (q item), Str_Cell (m item),
                               Str_Cell (g item)]) items\<rparr>"
proof -
  have v: "prompt_of item = Inr (PStr (p item)) \<and> reference_of item = Inr (PStr (q item)) \<and>
      model_response_of item = Inr (PStr (m item)) \<and>
      grading_results_of item = Inr (PStr (g item))" if "item \<in> set items" for item
  proof -
    from that assms have h: "map_of (datasource_item item) ''prompt'' = Some (PStr (p item))"
      "map_of (datasource_item item) ''reference'' = Some (PStr (q item))"
      "sample_output (sample item) \<noteq> []"
      "content (hd (sample_output (sample item))) = PStr (m item)"
      "grading_results_of item = Inr (PStr (g item))" by simp_all
    from h(3,4) have "model_response_of item = Inr (PStr (m item))"
      by (cases "sample_output (sample item)") (simp_all add: model_response_of_def bind_err_def)
    with h(1,2,5) show ?thesis
      by (simp add: prompt_of_def reference_of_def dict_getitem_def)
  qed
  then have r: "\<forall>item\<in>set items. readable item" by simp
  have c: "map (\<lambda>item. projr (prompt_of item)) items = map (\<lambda>item. PStr (p item)) items"
    "map (\<lambda>item. projr (reference_of item)) items = map (\<lambda>item. PStr (q item)) items"
    "map (\<lambda>item. projr (model_response_of item)) items = map (\<lambda>item. PStr (m item)) items"
    "map (\<lambda>item. projr (grading_results_of item)) items = map (\<lambda>item. PStr (g item)) items"
    using v by simp_all
  have "map (\<lambda>i. [map (\<lambda>item. Str_Cell (p item)) items ! i,
                  map (\<lambda>item. Str_Cell (q item)) items ! i,
                  map (\<lambda>item. Str_Cell (m item)) items ! i,
                  map (\<lambda>item. Str_Cell (g item)) items ! i]) [0..<length items] =
        map (\<lambda>i. [Str_Cell (p (items ! i)), Str_Cell (q (items ! i)), Str_Cell (m (items ! i)),
                  Str_Cell (g (items ! i))]) [0..<length items]"
    by simp
  also have "\<dots> = map (\<lambda>item. [Str_Cell (p item), Str_Cell (q item), Str_Cell (m item),
                               Str_Cell (g item)]) items"
    by (rule map_upt_nth)
  finally show ?thesis
    by (simp only: build_df_readable [OF r] c store_column_strings)
qed

text \<open>
  Claim C8. When all four cells of every output item can be read, the table has the columns
  \<^verbatim>\<open>prompt\<close>, \<^verbatim>\<open>reference\<close>, \<^verbatim>\<open>model_response\<close> and \<^verbatim>\<open>grading_results\<close>
  and one row per output item, in the order of the list. The cell of row \<open>i\<close> in a column
  is what the table stores at position \<open>i\<close> of the list of that column's values, one value
  per item in order: the item's \<^verbatim>\<open>datasource_item["prompt"]\<close>, its
  \<^verbatim>\<open>datasource_item["reference"]\<close>, the content of the first element of its
  \<^verbatim>\<open>sample.output\<close>, and what \<^verbatim>\<open>results[0]["sample"]["output"][0]["content"]\<close>
  holds. When these values are strings, as the service documents them, each row holds its
  item's four strings. Whenever the table is built it has these four columns and as many
  rows as there are items. When some item has an empty \<^verbatim>\<open>sample.output\<close> or empty
  \<^verbatim>\<open>results\<close> (or a cell cannot be read for another reason) building the table raises.
  The pass of the loop that sees a finished run displays the table built from the listed
  output items, or ends with the exception.
\<close>

theorem displayed_dataframe_rows:
  "((\<forall>item\<in>set items. readable item) \<longrightarrow>
      build_df items =
        Inr \<lparr>columns = [''prompt'', ''reference'', ''model_response'', ''grading_results''],
             rows = map (\<lambda>i.
               [store_column
                  (map (\<lambda>item. the (map_of (datasource_item item) ''prompt'')) items) ! i,
                store_column
                  (map (\<lambda>item. the (map_of (datasource_item item) ''reference'')) items) ! i,
                store_column
                  (map (\<lambda>item. content (hd (sample_output (sample item)))) items) ! i,
                store_column
                  (map (\<lambda>item. projr (grading_results_of item)) items) ! i])
               [0..<length items]\<rparr>) \<and>
   ((\<forall>item\<in>set items.
       map_of (datasource_item item) ''prompt'' = Some (PStr (p item)) \<and>
       map_of (datasource_item item) ''reference'' = Some (PStr (q item)) \<and>
       sample_output (sample item) \<noteq> [] \<and>
       content (hd (sample_output (sample item))) = PStr (m item) \<and>
       grading_results_of item = Inr (PStr (g item))) \<longrightarrow>
      build_df items =
        Inr \<lparr>columns = [''prompt'', ''reference'', ''model_response'', ''grading_results''],
             rows = map (\<lambda>item. [Str_Cell (p item), Str_Cell (q item), Str_Cell (m item),
                                  Str_Cell (g item)]) items\<rparr>) \<and>
   (\<forall>df. build_df items = Inr df \<longrightarrow>
      columns df = [''prompt'', ''reference'', ''model_response'', ''grading_results''] \<and>
      length (rows df) = length items) \<and>
   ((\<exists>item\<in>set items. sample_output (sample item) = [] \<or> results item = []) \<longrightarrow>
      isl (build_df items)) \<and>
   ((\<exists>item\<in>set items. \<not> readable item) \<longrightarrow> isl (build_df items)) \<and>
   (results item = PDict r # rest \<and> map_of r ''sample'' = Some (PDict s) \<and>
    map_of s ''output'' = Some (PList (PDict out0 # outs)) \<and> map_of out0 ''content'' = Some c
      \<longrightarrow> grading_results_of item = Inr c) \<and>
   (finished (runs_retrieve client k) \<longrightarrow>
      loop_body client eval_run eval_obj k =
        (case build_df (output_items_list client) of
           Inl e \<Rightarrow> ([Runs_Retrieve (run_id eval_run) (eval_object_id eval_obj),
                      Output_Items_List (run_id (runs_retrieve client k))
                        (eval_object_id eval_obj)], Raise e)
         | Inr df \<Rightarrow> ([Runs_Retrieve (run_id eval_run) (eval_object_id eval_obj),
                       Output_Items_List (run_id (runs_retrieve client k))
                         (eval_object_id eval_obj),
                       Display df], Break)))"
proof (intro conjI impI allI)
  assume a: "\<forall>item\<in>set items. readable item"
  then have "map (\<lambda>item. projr (prompt_of item)) items =
      map (\<lambda>item. the (map_of (datasource_item item) ''prompt'')) items"
    and "map (\<lambda>item. projr (reference_of item)) items =
      map (\<lambda>item. the (map_of (datasource_item item) ''reference'')) items"
    and "map (\<lambda>item. projr (model_response_of item)) items =
      map (\<lambda>item. content (hd (sample_output (sample item)))) items"
    by (simp_all add: readable_values)
  with build_df_readable [OF a]
  show "build_df items =
        Inr \<lparr>columns = [''prompt'', ''reference'', ''model_response'', ''grading_results''],
             rows = map (\<lambda>i.
               [store_column
                  (map (\<lambda>item. the (map_of (datasource_item item) ''prompt'')) items) ! i,
                store_column
                  (map (\<lambda>item. the (map_of (datasource_item item) ''reference'')) items) ! i,
                store_column
                  (map (\<lambda>item. content (hd (sample_output (sample item)))) items) ! i,
                store_column
                  (map (\<lambda>item. projr (grading_results_of item)) items) ! i])
               [0..<length items]\<rparr>"
    by simp
next
  assume "\<forall>item\<in>set items.
       map_of (datasource_item item) ''prompt'' = Some (PStr (p item)) \<and>
       map_of (datasource_item item) ''reference'' = Some (PStr (q item)) \<and>
       sample_output (sample item) \<noteq> [] \<and>
       content (hd (sample_output (sample item))) = PStr (m item) \<and>
       grading_results_of item = Inr (PStr (g item))"
  then show "build_df items =
        Inr \<lparr>columns = [''prompt'', ''reference'', ''model_response'', ''grading_results''],
             rows = map (\<lambda>item. [Str_Cell (p item), Str_Cell (q item), Str_Cell (m item),
                                  Str_Cell (g item)]) items\<rparr>"
    by (rule build_df_strings)
next
  fix df
  assume b: "build_df items = Inr df"
  have "\<forall>item\<in>set items. readable item"
  proof (rule ccontr)
    assume "\<not> (\<forall>item\<in>set items. readable item)"
    then have "\<exists>item\<in>set items. \<not> readable item" by blast
    then have "isl (build_df items)" by (rule build_df_unreadable)
    with b show False by simp
  qed
  from build_df_readable [OF this] b
  show "columns df = [''prompt'', ''reference'', ''model_response'', ''grading_results'']"
    and "length (rows df) = length items"
    by auto
next
  assume "\<exists>item\<in>set items. sample_output (sample item) = [] \<or> results item = []"
  then have "\<exists>item\<in>set items. \<not> readable item"
    using empty_not_readable by blast
  then show "isl (build_df items)" by (rule build_df_unreadable)
next
  assume "\<exists>item\<in>set items. \<not> readable item"
  then show "isl (build_df items)" by (rule build_df_unreadable)
next
  assume "results item = PDict r # rest \<and> map_of r ''sample'' = Some (PDict s) \<and>
    map_of s ''output'' = Some (PList (PDict out0 # outs)) \<and> map_of out0 ''content'' = Some c"
  then show "grading_results_of item = Inr c"
    by (simp add: grading_results_path)
next
  assume "finished (runs_retrieve client k)"
  then show "loop_body client eval_run eval_obj k =
        (case build_df (output_items_list client) of
           Inl e \<Rightarrow> ([Runs_Retrieve (run_id eval_run) (eval_object_id eval_obj),
                      Output_Items_List (run_id (runs_retrieve client k))
                        (eval_object_id eval_obj)], Raise e)
         | Inr df \<Rightarrow> ([Runs_Retrieve (run_id eval_run) (eval_object_id eval_obj),
                       Output_Items_List (run_id (runs_retrieve client k))
                         (eval_object_id eval_obj),
                       Display df], Break))"
    by (rule loop_body_finished)
qed

theorem displayed_dataframe_rows_witness:
  "readable (sample_item ''a'') \<and> readable (sample_item ''b'') \<and>
   build_df [sample_item ''a'', sample_item ''b''] =
     Inr \<lparr>columns = [''prompt'', ''reference'', ''model_response'', ''grading_results''],
          rows = [[Str_Cell ''prompt a'', Str_Cell ''reference a'', Str_Cell ''response a'',
                   Str_Cell ''grading a''],
                  [Str_Cell ''prompt b'', Str_Cell ''reference b'', Str_Cell ''response b'',
                   Str_Cell ''grading b'']]\<rparr> \<and>
   isl (build_df [sample_item ''a'', (sample_item ''b'')\<lparr>results := []\<rparr>])"
proof -
  let ?items = "[sample_item ''a'', sample_item ''b'']"
  let ?bad = "[sample_item ''a'', (sample_item ''b'')\<lparr>results := []\<rparr>]"
  let ?p = "\<lambda>item. if item = sample_item ''a'' then ''prompt a'' else ''prompt b''"
  let ?q = "\<lambda>item. if item = sample_item ''a'' then ''reference a'' else ''reference b''"
  let ?m = "\<lambda>item. if item = sample_item ''a'' then ''response a'' else ''response b''"
  let ?g = "\<lambda>item. if item = sample_item ''a'' then ''grading a'' else ''grading b''"
  have ne: "sample_item ''b'' \<noteq> sample_item ''a''"
    by (simp add: sample_item_def)
  have h: "\<forall>item\<in>set ?items.
       map_of (datasource_item item) ''prompt'' = Some (PStr (?p item)) \<and>
       map_of (datasource_item item) ''reference'' = Some (PStr (?q item)) \<and>
       sample_output (sample item) \<noteq> [] \<and>
       content (hd (sample_output (sample item))) = PStr (?m item) \<and>
       grading_results_of item = Inr (PStr (?g item))"
    using ne by (simp add: sample_item_def grading_results_of_def bind_err_def)
  have g: "\<exists>item\<in>set ?bad. sample_output (sample item) = [] \<or> results item = []"
    by simp
  note r = displayed_dataframe_rows [of ?items ?p ?q ?m ?g]
  note r' = displayed_dataframe_rows [of ?bad]
  from mp [OF conjunct1 [OF conjunct2 [OF r]] h] ne
  have a: "build_df ?items =
     Inr \<lparr>columns = [''prompt'', ''reference'', ''model_response'', ''grading_results''],
          rows = [[Str_Cell ''prompt a'', Str_Cell ''reference a'', Str_Cell ''response a'',
                   Str_Cell ''grading a''],
                  [Str_Cell ''prompt b'', Str_Cell ''reference b'', Str_Cell ''response b'',
                   Str_Cell ''grading b'']]\<rparr>"
    by simp
  from mp [OF conjunct1 [OF conjunct2 [OF conjunct2 [OF conjunct2 [OF r']]]] g]
  have b: "isl (build_df ?bad)" .
  from sample_item_readable [of "''a''"] sample_item_readable [of "''b''"] a b
  show ?thesis by (intro conjI) simp_all
qed


section \<open>The order of the calls\<close>

lemma notebook_setup_Inr:
  "build_evals_data_source dataset = Inr ds \<Longrightarrow>
   notebook_setup client dataset =
     Inr (evals_create client, runs_create client,
          [Evals_Create ''Image Grading'' data_source_config [grader_config],
           Runs_Create ''Image Input Eval Run'' (eval_object_id (evals_create client))
             (run_data_source ds)])"
  by (simp add: notebook_setup_def bind_err_def Let_def)

lemma notebook_setup_Inl:
  "build_evals_data_source dataset = Inl e \<Longrightarrow> notebook_setup client dataset = Inl e"
  by (simp add: notebook_setup_def bind_err_def)

text \<open>
  Claim C2. The notebook's calls come in a fixed order. If building the data source raises,
  no call is made. Otherwise the first event creates the eval, the second creates the run
  with the created eval's id and a data source whose content is the list built before, and
  then come the passes of the loop: as long as no retrieval is finished, a retrieve call and
  a sleep per pass; at the first finished retrieval, the retrieve call, the listing of the
  output items and the display, which are the last events. If no retrieval is ever finished
  the notebook does not return.
\<close>

theorem notebook_call_sequence:
  "(build_evals_data_source dataset = Inl e \<longrightarrow>
      notebook client dataset = Some ([], Some e)) \<and>
   (build_evals_data_source dataset = Inr ds \<and>
    (\<forall>j<n. \<not> finished (runs_retrieve client j)) \<longrightarrow>
      notebook_passes n client dataset =
        ([Evals_Create ''Image Grading'' data_source_config [grader_config],
          Runs_Create ''Image Input Eval Run'' (eval_object_id (evals_create client))
            (run_data_source ds)] @
         concat (replicate n
           [Runs_Retrieve (run_id (runs_create client)) (eval_object_id (evals_create client)),
            Sleep 5]),
         Continue)) \<and>
   (build_evals_data_source dataset = Inr ds \<and>
    (\<forall>j<n. \<not> finished (runs_retrieve client j)) \<and> finished (runs_retrieve client n) \<longrightarrow>
      notebook client dataset =
        Some ([Evals_Create ''Image Grading'' data_source_config [grader_config],
               Runs_Create ''Image Input Eval Run'' (eval_object_id (evals_create client))
                 (run_data_source ds)] @
              concat (replicate n
                [Runs_Retrieve (run_id (runs_create client))
                   (eval_object_id (evals_create client)),
                 Sleep 5]) @
              [Runs_Retrieve (run_id (runs_create client)) (eval_object_id (evals_create client)),
               Output_Items_List (run_id (runs_retrieve client n))
                 (eval_object_id (evals_create client))] @
              (case build_df (output_items_list client) of
                 Inl e \<Rightarrow> [] | Inr df \<Rightarrow> [Display df]),
              case build_df (output_items_list client) of
                Inl e \<Rightarrow> Some e | Inr df \<Rightarrow> None)) \<and>
   (build_evals_data_source dataset = Inr ds \<and> (\<forall>j. \<not> finished (runs_retrieve client j)) \<longrightarrow>
      notebook client dataset = None) \<and>
   bind_err (getitem_key (run_data_source ds) ''source'') (\<lambda>src. getitem_key src ''content'') =
     Inr (PList ds)"
proof (intro conjI impI)
  assume "build_evals_data_source dataset = Inl e"
  then show "notebook client dataset = Some ([], Some e)"
    by (simp add: notebook_def notebook_setup_Inl)
next
  assume a: "build_evals_data_source dataset = Inr ds \<and>
    (\<forall>j<n. \<not> finished (runs_retrieve client j))"
  then have w: "\<forall>j<n. \<not> finished (runs_retrieve client (0 + j))" by simp
  from a poll_passes_waiting [OF w]
  show "notebook_passes n client dataset =
        ([Evals_Create ''Image Grading'' data_source_config [grader_config],
          Runs_Create ''Image Input Eval Run'' (eval_object_id (evals_create client))
            (run_data_source ds)] @
         concat (replicate n
           [Runs_Retrieve (run_id (runs_create client)) (eval_object_id (evals_create client)),
            Sleep 5]),
         Continue)"
    by (simp add: notebook_passes_def notebook_setup_Inr)
next
  assume a: "build_evals_data_source dataset = Inr ds \<and>
    (\<forall>j<n. \<not> finished (runs_retrieve client j)) \<and> finished (runs_retrieve client n)"
  then have w: "\<forall>j<n. \<not> finished (runs_retrieve client (0 + j))"
    and f: "finished (runs_retrieve client (0 + n))" by simp_all
  from a f poll_loop_first_finished [OF w f]
  show "notebook client dataset =
        Some ([Evals_Create ''Image Grading'' data_source_config [grader_config],
               Runs_Create ''Image Input Eval Run'' (eval_object_id (evals_create client))
                 (run_data_source ds)] @
              concat (replicate n
                [Runs_Retrieve (run_id (runs_create client))
                   (eval_object_id (evals_create client)),
                 Sleep 5]) @
              [Runs_Retrieve (run_id (runs_create client)) (eval_object_id (evals_create client)),
               Output_Items_List (run_id (runs_retrieve client n))
                 (eval_object_id (evals_create client))] @
              (case build_df (output_items_list client) of
                 Inl e \<Rightarrow> [] | Inr df \<Rightarrow> [Display df]),
              case build_df (output_items_list client) of
                Inl e \<Rightarrow> Some e | Inr df \<Rightarrow> None)"
    by (simp add: notebook_def notebook_setup_Inr loop_body_finished split: sum.splits)
next
  assume a: "build_evals_data_source dataset = Inr ds \<and>
    (\<forall>j. \<not> finished (runs_retrieve client j))"
  then have "\<forall>j. \<not> finished (runs_retrieve client (0 + j))" by simp
  from a poll_loop_never [OF this]
  show "notebook client dataset = None"
    by (simp add: notebook_def notebook_setup_Inr)
next
  show "bind_err (getitem_key (run_data_source ds) ''source'') (\<lambda>src. getitem_key src ''content'') =
     Inr (PList ds)"
    by (simp add: run_data_source_def bind_err_def)
qed

theorem notebook_call_sequence_witness:
  "\<not> finished (runs_retrieve (sample_service ''completed'') 0) \<and>
   \<not> finished (runs_retrieve (sample_service ''completed'') 1) \<and>
   finished (runs_retrieve (sample_service ''completed'') 2) \<and>
   notebook (sample_service ''completed'') sample_dataset =
     Some ([Evals_Create ''Image Grading'' data_source_config [grader_config],
            Runs_Create ''Image Input Eval Run'' ''eval_1''
              (run_data_source
                 [PDict [(''item'', PDict [(''media_url'', PStr ''https://example.org/a.jpg''),
                                           (''reference'', PStr ''reference a''),
                                           (''prompt'', PStr ''prompt a'')])],
                  PDict [(''item'', PDict [(''media_url'', PStr ''https://example.org/b.jpg''),
                                           (''reference'', PStr ''reference b''),
                                           (''prompt'', PStr ''prompt b'')])],
                  PDict [(''item'', PDict [(''media_url'', PStr ''https://example.org/c.jpg''),
                                           (''reference'', PStr ''reference c''),
                                           (''prompt'', PStr ''prompt c'')])]]),
            Runs_Retrieve ''evalrun_1'' ''eval_1'', Sleep 5,
            Runs_Retrieve ''evalrun_1'' ''eval_1'', Sleep 5,
            Runs_Retrieve ''evalrun_1'' ''eval_1'',
            Output_Items_List ''evalrun_1'' ''eval_1'',
            Display \<lparr>columns = [''prompt'', ''reference'', ''model_response'', ''grading_results''],
              rows = [[Str_Cell ''prompt a'', Str_Cell ''reference a'', Str_Cell ''response a'',
                   Str_Cell ''grading a''],
                  [Str_Cell ''prompt b'', Str_Cell ''reference b'', Str_Cell ''response b'',
                   Str_Cell ''grading b'']]\<rparr>],
           None)"
proof -
  let ?c = "sample_service ''completed''"
  have h0: "\<not> finished (runs_retrieve ?c 0)" by (simp add: sample_service_def)
  have h1: "\<not> finished (runs_retrieve ?c 1)" by (simp add: sample_service_def)
  have h2: "finished (runs_retrieve ?c 2)" by (simp add: sample_service_def)
  have w: "\<forall>j<2. \<not> finished (runs_retrieve ?c j)" by (simp add: sample_service_def)
  note r = notebook_call_sequence [of sample_dataset _ ?c _ 2]
  from sample_build w h2
  have "build_evals_data_source sample_dataset = Inr
                 [PDict [(''item'', PDict [(''media_url'', PStr ''https://example.org/a.jpg''),
                                           (''reference'', PStr ''reference a''),
                                           (''prompt'', PStr ''prompt a'')])],
                  PDict [(''item'', PDict [(''media_url'', PStr ''https://example.org/b.jpg''),
                                           (''reference'', PStr ''reference b''),
                                           (''prompt'', PStr ''prompt b'')])],
                  PDict [(''item'', PDict [(''media_url'', PStr ''https://example.org/c.jpg''),
                                           (''reference'', PStr ''reference c''),
                                           (''prompt'', PStr ''prompt c'')])]] \<and>
    (\<forall>j<2. \<not> finished (runs_retrieve ?c j)) \<and> finished (runs_retrieve ?c 2)"
    by (intro conjI)
  from mp [OF conjunct1 [OF conjunct2 [OF conjunct2 [OF r]]] this]
  have n: "notebook ?c sample_dataset = Some ([Evals_Create ''Image Grading'' data_source_config [grader_config],
            Runs_Create ''Image Input Eval Run'' ''eval_1''
              (run_data_source
                 [PDict [(''item'', PDict [(''media_url'', PStr ''https://example.org/a.jpg''),
                                           (''reference'', PStr ''reference a''),
                                           (''prompt'', PStr ''prompt a'')])],
                  PDict [(''item'', PDict [(''media_url'', PStr ''https://example.org/b.jpg''),
                                           (''reference'', PStr ''reference b''),
                                           (''prompt'', PStr ''prompt b'')])],
                  PDict [(''item'', PDict [(''media_url'', PStr ''https://example.org/c.jpg''),
                                           (''reference'', PStr ''reference c''),
                                           (''prompt'', PStr ''prompt c'')])]]),
            Runs_Retrieve ''evalrun_1'' ''eval_1'', Sleep 5,
            Runs_Retrieve ''evalrun_1'' ''eval_1'', Sleep 5,
            Runs_Retrieve ''evalrun_1'' ''eval_1'',
            Output_Items_List ''evalrun_1'' ''eval_1'',
            Display \<lparr>columns = [''prompt'', ''reference'', ''model_response'', ''grading_results''],
              rows = [[Str_Cell ''prompt a'', Str_Cell ''reference a'', Str_Cell ''response a'',
                   Str_Cell ''grading a''],
                  [Str_Cell ''prompt b'', Str_Cell ''reference b'', Str_Cell ''response b'',
                   Str_Cell ''grading b'']]\<rparr>],
           None)"
    by (simp add: sample_service_def build_df_sample numeral_2_eq_2)
  from h0 h1 h2 n show ?thesis by (intro conjI)
qed

end
